theory Spec2Isabelle
  imports Complex_Main "HOL-Library.Char_ord" "HOL-Library.List_Lexorder"
    "HOL-Library.Product_Lexorder"
begin

section \<open>Data model\<close>

text \<open>
  Calendar dates are day numbers counted from a Monday, so that the weekday of a date
  (Monday = 0) is its remainder modulo 7 and \<open>timedelta(days=k)\<close> is the addition
  of \<open>k\<close>. A clock time is a \<open>datetime.time\<close> without microseconds. Worker
  ids are strings. Python's unbounded integers are \<open>int\<close>.
\<close>

type_synonym date = int
type_synonym emp = string

record clock =
  hour :: nat
  minute :: nat
  second :: nat

definition valid_clock :: "clock \<Rightarrow> bool" where
  "valid_clock t = (hour t < 24 \<and> minute t < 60 \<and> second t < 60)"

text \<open>Seconds since midnight: what \<open>pd.to_datetime(str(t))\<close> adds to today's date.\<close>

definition secs :: "clock \<Rightarrow> int" where
  "secs t = int (hour t) * 3600 + int (minute t) * 60 + int (second t)"

text \<open>Python compares \<open>datetime.time\<close> values field by field.\<close>

definition clock_lt :: "clock \<Rightarrow> clock \<Rightarrow> bool" where
  "clock_lt a b =
     (hour a < hour b \<or> (hour a = hour b \<and>
        (minute a < minute b \<or> (minute a = minute b \<and> second a < second b))))"

definition clock_le :: "clock \<Rightarrow> clock \<Rightarrow> bool" where
  "clock_le a b = (clock_lt a b \<or> (hour a = hour b \<and> minute a = minute b \<and> second a = second b))"

definition weekday :: "date \<Rightarrow> int" where
  "weekday d = d mod 7"

subsection \<open>The weekly template and the shift instances (preprocessing.py)\<close>

text \<open>A cell of the weekly template after \<open>convert_day_value\<close>: 1, 0.5 or 0.\<close>

datatype day_value = Ja | Facultatief | Nee

record template_row =
  t_shifts :: string
  t_begintijd :: clock
  t_eindtijd :: clock
  t_deskundigheid :: nat
  t_days :: "day_value list"

record requirement =
  r_shift_name :: string
  r_day_of_week :: int
  r_start_time :: clock
  r_end_time :: clock
  r_qualification :: "nat list"
  r_duration :: rat
  r_required :: rat

record shift =
  shift_id :: nat
  shift_name :: string
  shift_date :: date
  week :: int
  global_week :: int
  day_of_week :: int
  absolute_day :: int
  start_time :: clock
  end_time :: clock
  duration_min :: int
  qualification :: "nat list"
  is_night :: bool
  required :: rat

text \<open>
  \<open>Duur\<close>: the difference of the two times in hours, plus 24 when negative. The
  source computes it in floating point; the model uses exact rationals.
\<close>

definition duur :: "clock \<Rightarrow> clock \<Rightarrow> rat" where
  "duur b e =
     (let d = of_int (secs e - secs b) / 3600 in if d < 0 then d + 24 else d)"

text \<open>\<open>round()\<close> of pandas and numpy rounds halves to the even neighbour.\<close>

definition round_half_even :: "rat \<Rightarrow> int" where
  "round_half_even q =
     (let f = \<lfloor>q\<rfloor>; r = q - of_int f
      in if r < 1 / 2 then f else if 1 / 2 < r then f + 1 else if even f then f else f + 1)"

definition requirement_of :: "template_row \<Rightarrow> nat \<Rightarrow> rat \<Rightarrow> requirement" where
  "requirement_of row i req =
     \<lparr> r_shift_name = t_shifts row, r_day_of_week = int i,
       r_start_time = t_begintijd row, r_end_time = t_eindtijd row,
       r_qualification = [t_deskundigheid row],
       r_duration = duur (t_begintijd row) (t_eindtijd row),
       r_required = req \<rparr>"

text \<open>The loop over the seven day columns of one template row.\<close>

definition row_requirements :: "template_row \<Rightarrow> requirement list" where
  "row_requirements row =
     concat (map (\<lambda>(i, v). case v of
                      Ja \<Rightarrow> [requirement_of row i 1]
                    | Facultatief \<Rightarrow> [requirement_of row i (1 / 2)]
                    | Nee \<Rightarrow> [])
                 (enumerate 0 (take 7 (t_days row))))"

definition shift_requirements :: "template_row list \<Rightarrow> requirement list" where
  "shift_requirements df_shifts = concat (map row_requirements df_shifts)"

text \<open>
  One entry of \<open>all_shift_instances\<close> with the columns added afterwards
  (\<open>duration_min\<close>, \<open>is_night\<close>); the shift id is the row's index.
\<close>

definition shift_instance :: "date \<Rightarrow> date \<Rightarrow> int \<Rightarrow> requirement \<Rightarrow> shift" where
  "shift_instance start_date global_start_date wk row =
     (let sd = start_date + (wk * 7 + r_day_of_week row)
      in \<lparr> shift_id = 0, shift_name = r_shift_name row, shift_date = sd,
           week = wk + 1, global_week = (sd - global_start_date) div 7 + 1,
           day_of_week = r_day_of_week row,
           absolute_day = wk * 7 + r_day_of_week row,
           start_time = r_start_time row, end_time = r_end_time row,
           duration_min = round_half_even (r_duration row * 60),
           qualification = r_qualification row,
           is_night = (secs (r_end_time row) - secs (r_start_time row) < 0),
           required = r_required row \<rparr>)"

text \<open>\<open>reset_index\<close> followed by \<open>shift_id = index\<close>.\<close>

definition reindex :: "shift list \<Rightarrow> shift list" where
  "reindex ss = map (\<lambda>(i, s). s\<lparr>shift_id := i\<rparr>) (enumerate 0 ss)"

definition all_shift_instances :: "date \<Rightarrow> date \<Rightarrow> nat \<Rightarrow> requirement list \<Rightarrow> shift list" where
  "all_shift_instances start_date global_start_date num_weeks reqs =
     reindex (concat (map (\<lambda>wk. map (shift_instance start_date global_start_date (int wk)) reqs)
                          [0..<num_weeks]))"

definition is_constant_name :: "string \<Rightarrow> bool" where
  "is_constant_name n = (n = ''KOK'' \<or> n = ''FM'')"

text \<open>The constant catalogue and the shifts of the decision model, each re-indexed.\<close>

definition shifts_constant_of :: "shift list \<Rightarrow> shift list" where
  "shifts_constant_of ss = reindex (filter (\<lambda>s. is_constant_name (shift_name s)) ss)"

definition shifts_of :: "shift list \<Rightarrow> shift list" where
  "shifts_of ss = reindex (filter (\<lambda>s. \<not> is_constant_name (shift_name s)) ss)"

subsection \<open>Prior assignments (preprocessing.py, lines 87-142)\<close>

record raw_prev =
  rp_mw_id :: emp
  rp_datum_dienst :: date
  rp_dienst :: string
  rp_starttijd :: clock
  rp_eindtijd :: clock

record prev_assignment =
  p_employee_id :: "emp option"
  p_shift_date :: date
  p_shift_name :: string
  p_start_time :: clock
  p_end_time :: clock
  p_shift_id :: nat
  p_is_night :: bool
  p_duration_min :: rat
  p_day_of_week :: int
  p_absolute_day :: int
  p_week :: int
  p_global_week :: int

definition prev_is_night :: "clock \<Rightarrow> bool" where
  "prev_is_night t = (22 \<le> hour t \<or> hour t < 6)"

definition prev_duration_min :: "clock \<Rightarrow> clock \<Rightarrow> rat" where
  "prev_duration_min b e =
     (let d = of_int (secs e - secs b) / 60 in if d < 0 then d + 24 * 60 else d)"

text \<open>Steps 1 to 3: renaming, ids in input order, night flag, duration.\<close>

definition prev_fields :: "nat \<times> raw_prev \<Rightarrow> prev_assignment" where
  "prev_fields ir =
     (case ir of (i, r) \<Rightarrow>
        \<lparr> p_employee_id = Some (rp_mw_id r), p_shift_date = rp_datum_dienst r,
          p_shift_name = rp_dienst r, p_start_time = rp_starttijd r,
          p_end_time = rp_eindtijd r, p_shift_id = i,
          p_is_night = prev_is_night (rp_starttijd r),
          p_duration_min = prev_duration_min (rp_starttijd r) (rp_eindtijd r),
          p_day_of_week = 0, p_absolute_day = 0, p_week = 0, p_global_week = 0 \<rparr>)"

definition min_date :: "date list \<Rightarrow> date" where
  "min_date ds = fold min (tl ds) (hd ds)"

definition max_date :: "date list \<Rightarrow> date" where
  "max_date ds = fold max (tl ds) (hd ds)"

text \<open>
  Steps 4 to 6 on a non-empty table: sorting by date, day and week indices. Rows of one
  date keep their input order here; the default sort of pandas need not keep it.
\<close>

definition canonical_prev :: "raw_prev list \<Rightarrow> prev_assignment list" where
  "canonical_prev df =
     (let rows = sort_key p_shift_date (map prev_fields (enumerate 0 df));
          first_day = min_date (map p_shift_date rows);
          global_start_date = first_day - weekday first_day
      in map (\<lambda>p. p\<lparr> p_day_of_week := weekday (p_shift_date p),
                      p_absolute_day := p_shift_date p - first_day,
                      p_week := (p_shift_date p - first_day) div 7,
                      p_global_week := (p_shift_date p - global_start_date) div 7 \<rparr>) rows)"

text \<open>
  The first date of the horizon and the Monday the global weeks count from. Without
  prior assignments both are the coming Monday, computed from today's date.
\<close>

definition start_dates :: "raw_prev list \<Rightarrow> date \<Rightarrow> date \<times> date" where
  "start_dates df today =
     (if df = [] then
        (let sd = today + (7 - weekday today) mod 7 in (sd, sd))
      else
        (let first_day = min_date (map rp_datum_dienst df)
         in (max_date (map rp_datum_dienst df) + 1, first_day - weekday first_day)))"

text \<open>The shift tables of \<open>preprocess_data\<close>: all instances, the catalogue, the model's shifts.\<close>

definition preprocess_instances :: "template_row list \<Rightarrow> raw_prev list \<Rightarrow> date \<Rightarrow> nat \<Rightarrow> shift list" where
  "preprocess_instances df_shifts prev today num_weeks =
     (case start_dates prev today of (sd, gsd) \<Rightarrow>
        all_shift_instances sd gsd num_weeks (shift_requirements df_shifts))"

definition preprocess_shifts :: "template_row list \<Rightarrow> raw_prev list \<Rightarrow> date \<Rightarrow> nat \<Rightarrow> shift list" where
  "preprocess_shifts df_shifts prev today num_weeks =
     shifts_of (preprocess_instances df_shifts prev today num_weeks)"

definition preprocess_shifts_constant :: "template_row list \<Rightarrow> raw_prev list \<Rightarrow> date \<Rightarrow> nat \<Rightarrow> shift list" where
  "preprocess_shifts_constant df_shifts prev today num_weeks =
     shifts_constant_of (preprocess_instances df_shifts prev today num_weeks)"

subsection \<open>Workers and unavailability rows\<close>

text \<open>
  The columns of the worker table that the model builder and the validator read. The
  pattern cell is its text, \<open>None\<close> for an absent or NaN cell.
\<close>

record worker =
  medewerker_id :: emp
  medewerker_naam :: string
  deskundigheid :: "nat list"
  max_days_per_week :: int
  contract_minutes :: int
  leeftijd :: int
  nachten :: string
  voorkeur_nacht :: string
  patroon :: "string option"

text \<open>
  A row of the unavailability table after preprocessing. A time that is absent (or that
  \<open>ensure_time\<close> could not read) is \<open>None\<close>, and so is the date \<open>NaT\<close>.
\<close>

record onb_row =
  o_medewerker_id :: emp
  o_datum :: "date option"
  o_beschikbaarheid :: string
  o_tijd_vanaf :: "clock option"
  o_tijd_tm :: "clock option"

text \<open>\<open>str.lower()\<close> on ASCII text.\<close>

definition lower_char :: "char \<Rightarrow> char" where
  "lower_char c =
     (let n = (of_char c :: nat) in if 65 \<le> n \<and> n \<le> 90 then char_of (n + 32) else c)"

definition lower :: "string \<Rightarrow> string" where
  "lower s = map lower_char s"

text \<open>The data dictionary handed from preprocessing to the model builder and the validator.\<close>

record data =
  d_shifts :: "shift list"
  d_workers :: "worker list"
  d_onb :: "onb_row list"
  d_prev :: "prev_assignment list"

text \<open>
  The entries \<open>emp_ids\<close>, \<open>weeks\<close>, \<open>night_shifts\<close>, \<open>shifts_by_week\<close>,
  \<open>night_shifts_by_week\<close> and \<open>dur_min\<close> of the dictionary are computed by
  preprocessing from the two tables; they are functions of the tables here. A lookup
  of a shift's column by its id reads the row itself: ids are the row indices.
\<close>

definition emp_ids :: "data \<Rightarrow> emp list" where
  "emp_ids dt = map medewerker_id (d_workers dt)"

text \<open>\<open>workers.loc[workers['medewerker_id'] == emp, col].iloc[0]\<close>: the first row of that id.\<close>

definition lookup_worker :: "data \<Rightarrow> emp \<Rightarrow> worker option" where
  "lookup_worker dt e = find (\<lambda>w. medewerker_id w = e) (d_workers dt)"

definition dates_list :: "data \<Rightarrow> date list" where
  "dates_list dt = sort (remdups (map shift_date (d_shifts dt)))"

definition shifts_by_date :: "data \<Rightarrow> date \<Rightarrow> nat list" where
  "shifts_by_date dt d = map shift_id (filter (\<lambda>s. shift_date s = d) (d_shifts dt))"

definition night_shifts_by_date :: "data \<Rightarrow> date \<Rightarrow> nat list" where
  "night_shifts_by_date dt d =
     map shift_id (filter (\<lambda>s. shift_date s = d) (filter is_night (d_shifts dt)))"

definition non_night_shifts_by_date :: "data \<Rightarrow> date \<Rightarrow> nat list" where
  "non_night_shifts_by_date dt d =
     map shift_id (filter (\<lambda>s. \<not> is_night s) (filter (\<lambda>s. shift_date s = d) (d_shifts dt)))"

definition weeks :: "data \<Rightarrow> int list" where
  "weeks dt = sort (remdups (map week (d_shifts dt)))"

definition shifts_by_week :: "data \<Rightarrow> int \<Rightarrow> nat list" where
  "shifts_by_week dt w = map shift_id (filter (\<lambda>s. week s = w) (d_shifts dt))"

definition night_shifts :: "data \<Rightarrow> nat list" where
  "night_shifts dt = map shift_id (filter is_night (d_shifts dt))"

definition night_shifts_by_week :: "data \<Rightarrow> int \<Rightarrow> nat list" where
  "night_shifts_by_week dt w =
     map shift_id (filter (\<lambda>s. week s = w \<and> is_night s) (d_shifts dt))"

section \<open>The model builder (solver_standardized.py)\<close>

text \<open>
  The CP-SAT solver is opaque. A candidate solution gives every boolean variable
  \<open>x[(s, emp)]\<close> and \<open>u[s]\<close> a value; each block of \<open>model.Add\<close> calls is the
  predicate that the values satisfy it. The indicator \<open>n_emp_date[(emp, d)]\<close> is tied
  to \<open>x\<close> on both sides, so its value is determined by \<open>x\<close>.
\<close>

type_synonym xvars = "nat \<Rightarrow> emp \<Rightarrow> bool"
type_synonym uvars = "nat \<Rightarrow> bool"

definition b2i :: "bool \<Rightarrow> int" where
  "b2i b = (if b then 1 else 0)"

text \<open>\<open>sum(x[(s, emp)] for s in ids)\<close>\<close>

definition xsum :: "xvars \<Rightarrow> emp \<Rightarrow> nat list \<Rightarrow> int" where
  "xsum x e ids = sum_list (map (\<lambda>s. b2i (x s e)) ids)"

definition n_emp_date :: "data \<Rightarrow> xvars \<Rightarrow> emp \<Rightarrow> date \<Rightarrow> bool" where
  "n_emp_date dt x e d = (1 \<le> xsum x e (night_shifts_by_date dt d))"

text \<open>1) Coverage.\<close>

definition c1_coverage :: "data \<Rightarrow> xvars \<Rightarrow> uvars \<Rightarrow> bool" where
  "c1_coverage dt x u =
     (\<forall>s \<in> set (map shift_id (d_shifts dt)).
        sum_list (map (\<lambda>e. b2i (x s e)) (emp_ids dt)) + b2i (u s) = 1)"

text \<open>2) At most one shift per employee per calendar day.\<close>

definition c2_one_per_day :: "data \<Rightarrow> xvars \<Rightarrow> bool" where
  "c2_one_per_day dt x =
     (\<forall>e \<in> set (emp_ids dt). \<forall>d \<in> set (dates_list dt). xsum x e (shifts_by_date dt d) \<le> 1)"

text \<open>3) After a night shift, no day or evening shift on the next day.\<close>

definition c3_after_night :: "data \<Rightarrow> xvars \<Rightarrow> bool" where
  "c3_after_night dt x =
     (\<forall>e \<in> set (emp_ids dt). \<forall>d \<in> set (dates_list dt).
        shifts_by_date dt (d + 1) = [] \<or> night_shifts_by_date dt d = []
        \<or> non_night_shifts_by_date dt (d + 1) = []
        \<or> xsum x e (night_shifts_by_date dt d) + xsum x e (non_night_shifts_by_date dt (d + 1))
            \<le> int (length (night_shifts_by_date dt d)))"

text \<open>4) Maximum work days per week.\<close>

definition c4_week_cap :: "data \<Rightarrow> xvars \<Rightarrow> bool" where
  "c4_week_cap dt x =
     (\<forall>e \<in> set (emp_ids dt).
        case lookup_worker dt e of
          None \<Rightarrow> False
        | Some w \<Rightarrow> (\<forall>wk \<in> set (weeks dt).
             shifts_by_week dt wk = [] \<or> xsum x e (shifts_by_week dt wk) \<le> max_days_per_week w))"

text \<open>5) Contract minutes, averaged over the horizon.\<close>

definition c5_contract :: "data \<Rightarrow> xvars \<Rightarrow> bool" where
  "c5_contract dt x =
     (\<forall>e \<in> set (emp_ids dt).
        case lookup_worker dt e of
          None \<Rightarrow> False
        | Some w \<Rightarrow>
            sum_list (map (\<lambda>s. duration_min s * b2i (x (shift_id s) e)) (d_shifts dt))
              \<le> contract_minutes w * int (length (weeks dt)))"

text \<open>
  6) Unavailability. A row of another kind than \<open>beschikbaar\<close> bars its worker from the
  shifts of its date that overlap the window, from all of them when a time is absent.
\<close>

definition overlap :: "shift \<Rightarrow> clock \<Rightarrow> clock \<Rightarrow> bool" where
  "overlap s start_unb end_unb =
     (\<not> (clock_le (end_time s) start_unb \<or> clock_le end_unb (start_time s)))"

definition onb_overlap :: "onb_row \<Rightarrow> shift \<Rightarrow> bool" where
  "onb_overlap r s =
     (case (o_tijd_vanaf r, o_tijd_tm r) of
        (Some a, Some b) \<Rightarrow> overlap s a b
      | _ \<Rightarrow> True)"

definition c6_unavailable :: "data \<Rightarrow> xvars \<Rightarrow> bool" where
  "c6_unavailable dt x =
     (\<forall>r \<in> set (d_onb dt).
        o_medewerker_id r \<notin> set (emp_ids dt)
        \<or> lower (o_beschikbaarheid r) = ''beschikbaar''
        \<or> (\<forall>s \<in> set (filter (\<lambda>s. Some (shift_date s) = o_datum r) (d_shifts dt)).
              onb_overlap r s \<longrightarrow> \<not> x (shift_id s) (o_medewerker_id r)))"

text \<open>
  \<open>get_last_consecutive_block_dates\<close>: the dates of the worker's prior assignments (of
  the prior nights when \<open>is_night\<close> is set), walked backwards from the last one while each
  date is the day before the one collected last.
\<close>

fun take_consecutive :: "date \<Rightarrow> date list \<Rightarrow> date list" where
  "take_consecutive b [] = []"
| "take_consecutive b (d # ds) = (if b - d = 1 then d # take_consecutive d ds else [])"

definition tail_block :: "date list \<Rightarrow> date list" where
  "tail_block days =
     (case rev days of [] \<Rightarrow> [] | d # ds \<Rightarrow> rev (d # take_consecutive d ds))"

definition get_last_consecutive_block_dates :: "prev_assignment list \<Rightarrow> emp \<Rightarrow> bool \<Rightarrow> date list" where
  "get_last_consecutive_block_dates prev e night_only =
     (let df0 = filter (\<lambda>p. p_employee_id p = Some e) prev;
          df = (if night_only then filter p_is_night df0 else df0)
      in if df = [] then [] else tail_block (sort (remdups (map p_shift_date df))))"

text \<open>7.1) Maximum consecutive nights.\<close>

definition max_consec_of :: "emp \<Rightarrow> nat" where
  "max_consec_of e = (if e = ''602859-1'' then 7 else 5)"

definition curr_night_dates :: "data \<Rightarrow> date list" where
  "curr_night_dates dt = sort (remdups (map shift_date (filter is_night (d_shifts dt))))"

definition combined_dates :: "data \<Rightarrow> emp \<Rightarrow> date list" where
  "combined_dates dt e =
     sort (remdups (get_last_consecutive_block_dates (d_prev dt) e True @ curr_night_dates dt))"

text \<open>The slices \<open>combined[i:i + max_consec + 1]\<close> for \<open>i\<close> in \<open>range(len(combined) - max_consec)\<close>.\<close>

definition windows :: "nat \<Rightarrow> 'a list \<Rightarrow> 'a list list" where
  "windows n xs = map (\<lambda>i. take (n + 1) (drop i xs)) [0..<length xs - n]"

definition c71_window_ok :: "data \<Rightarrow> xvars \<Rightarrow> emp \<Rightarrow> date list \<Rightarrow> bool" where
  "c71_window_ok dt x e window =
     (let window_curr_dates = filter (\<lambda>d. d \<in> set (curr_night_dates dt)) window
      in last window - hd window \<noteq> int (max_consec_of e)
         \<or> window_curr_dates = []
         \<or> xsum x e (concat (map (night_shifts_by_date dt) window_curr_dates))
             \<le> int (max_consec_of e))"

definition c71_consecutive_nights :: "data \<Rightarrow> xvars \<Rightarrow> bool" where
  "c71_consecutive_nights dt x =
     (\<forall>e \<in> set (emp_ids dt).
        \<forall>window \<in> set (windows (max_consec_of e) (combined_dates dt e)).
          c71_window_ok dt x e window)"

text \<open>7.2) After three or more consecutive nights, two calendar days of rest.\<close>

definition blocked_on :: "data \<Rightarrow> xvars \<Rightarrow> emp \<Rightarrow> date \<Rightarrow> bool" where
  "blocked_on dt x e d = (\<forall>s \<in> set (shifts_by_date dt d). \<not> x s e)"

definition c72_prev_tail :: "data \<Rightarrow> xvars \<Rightarrow> emp \<Rightarrow> bool" where
  "c72_prev_tail dt x e =
     (let prev_nights = get_last_consecutive_block_dates (d_prev dt) e True
      in length prev_nights < 3
         \<or> (\<forall>k \<in> set [1, 2].
               last prev_nights + k \<notin> set (dates_list dt)
               \<or> blocked_on dt x e (last prev_nights + k)))"

text \<open>The successive entries \<open>dates_list[idx - 2], dates_list[idx - 1], dates_list[idx]\<close>.\<close>

fun triples :: "'a list \<Rightarrow> ('a \<times> 'a \<times> 'a) list" where
  "triples (a # b # c # r) = (a, b, c) # triples (b # c # r)"
| "triples _ = []"

definition c72_triple_ok :: "data \<Rightarrow> xvars \<Rightarrow> emp \<Rightarrow> date \<times> date \<times> date \<Rightarrow> bool" where
  "c72_triple_ok dt x e t =
     (case t of (d0, d1, d2) \<Rightarrow>
        d2 + 1 \<notin> set (dates_list dt)
        \<or> \<not> (n_emp_date dt x e d0 \<and> n_emp_date dt x e d1 \<and> n_emp_date dt x e d2
              \<and> \<not> n_emp_date dt x e (d2 + 1))
        \<or> (\<forall>bd \<in> set (filter (\<lambda>d. d \<in> set (dates_list dt)) [d2 + 1, d2 + 2]).
              blocked_on dt x e bd))"

definition c72_rest_after_nights :: "data \<Rightarrow> xvars \<Rightarrow> bool" where
  "c72_rest_after_nights dt x =
     (\<forall>e \<in> set (emp_ids dt).
        c72_prev_tail dt x e \<and> (\<forall>t \<in> set (triples (dates_list dt)). c72_triple_ok dt x e t))"

text \<open>7.3) At most 35 nights in 13 weeks.\<close>

definition prev_night_shift_ids :: "data \<Rightarrow> emp \<Rightarrow> nat list" where
  "prev_night_shift_ids dt e =
     map p_shift_id (filter (\<lambda>p. p_employee_id p = Some e \<and> p_is_night p) (d_prev dt))"

text \<open>The week column of the first prior row of that id; the lookup is inside a \<open>try\<close>.\<close>

definition prev_week_of :: "data \<Rightarrow> nat \<Rightarrow> int option" where
  "prev_week_of dt s = map_option p_week (find (\<lambda>p. p_shift_id p = s) (d_prev dt))"

definition prev_count :: "data \<Rightarrow> emp \<Rightarrow> int \<Rightarrow> int" where
  "prev_count dt e start_week =
     int (length (filter (\<lambda>s. case prev_week_of dt s of
                                 None \<Rightarrow> False
                               | Some w \<Rightarrow> start_week \<le> w \<and> w < start_week + 13)
                         (prev_night_shift_ids dt e)))"

definition window_shifts :: "data \<Rightarrow> int \<Rightarrow> nat list" where
  "window_shifts dt start_week =
     concat (map (night_shifts_by_week dt) [start_week..start_week + 12])"

definition min_week :: "data \<Rightarrow> int" where
  "min_week dt = hd (weeks dt)"

definition max_week :: "data \<Rightarrow> int" where
  "max_week dt = last (weeks dt)"

definition c73_thirteen_weeks :: "data \<Rightarrow> xvars \<Rightarrow> bool" where
  "c73_thirteen_weeks dt x =
     (\<forall>e \<in> set (emp_ids dt).
        \<forall>start_week \<in> set [min_week dt..max_week dt - 12].
          window_shifts dt start_week = []
          \<or> xsum x e (window_shifts dt start_week) + prev_count dt e start_week \<le> 35)"

text \<open>7.4) No nights from the age of 55, unless the night column is anything but \<open>niet\<close>.\<close>

definition CAO_7_4_exempt_model :: "data \<Rightarrow> emp list" where
  "CAO_7_4_exempt_model dt = map medewerker_id (filter (\<lambda>w. nachten w \<noteq> ''niet'') (d_workers dt))"

definition c74_age :: "data \<Rightarrow> xvars \<Rightarrow> bool" where
  "c74_age dt x =
     (\<forall>e \<in> set (emp_ids dt).
        e \<in> set (CAO_7_4_exempt_model dt)
        \<or> (case lookup_worker dt e of
              None \<Rightarrow> False
            | Some w \<Rightarrow> leeftijd w < 55 \<or> (\<forall>s \<in> set (night_shifts dt). \<not> x s e)))"

text \<open>8) Qualification: the worker's lowest code must not exceed the shift's lowest code.\<close>

definition py_min :: "nat list \<Rightarrow> nat option" where
  "py_min xs = (case xs of [] \<Rightarrow> None | y # ys \<Rightarrow> Some (fold min ys y))"

definition c8_qualification :: "data \<Rightarrow> xvars \<Rightarrow> bool" where
  "c8_qualification dt x =
     (\<forall>s \<in> set (d_shifts dt). \<forall>e \<in> set (emp_ids dt).
        case (py_min (qualification s), lookup_worker dt e) of
          (Some req_level, Some w) \<Rightarrow>
            (case py_min (deskundigheid w) of
               None \<Rightarrow> False
             | Some emp_level \<Rightarrow> emp_level \<le> req_level \<or> \<not> x (shift_id s) e)
        | _ \<Rightarrow> False)"

text \<open>9) The night column: \<open>Niet\<close> forbids nights, \<open>uitsluitend\<close> forbids everything else.\<close>

definition c9_night_policy :: "data \<Rightarrow> xvars \<Rightarrow> bool" where
  "c9_night_policy dt x =
     (\<forall>e \<in> set (emp_ids dt).
        case lookup_worker dt e of
          None \<Rightarrow> False
        | Some w \<Rightarrow>
            (if nachten w = ''Niet'' then (\<forall>s \<in> set (night_shifts dt). \<not> x s e)
             else if nachten w = ''uitsluitend''
               then (\<forall>s \<in> set (map shift_id (d_shifts dt)). s \<in> set (night_shifts dt) \<or> \<not> x s e)
             else True))"

text \<open>
  The penalty for isolated shifts posts one more hard constraint. The indicator
  \<open>work_day[(emp, d)]\<close> is tied to \<open>x\<close> on both sides. When the worker's last prior
  assignment is on the day before the first date of the horizon, the penalty variable of
  that date is fixed to 0, and the clause enforced under its negation then holds
  unconditionally: the worker does not work on the first date, or works on the second.
\<close>

definition works_on :: "data \<Rightarrow> xvars \<Rightarrow> emp \<Rightarrow> date \<Rightarrow> bool" where
  "works_on dt x e d = (1 \<le> xsum x e (shifts_by_date dt d))"

definition last_prev_day_worked :: "data \<Rightarrow> emp \<Rightarrow> date option" where
  "last_prev_day_worked dt e =
     (case map p_shift_date (filter (\<lambda>p. p_employee_id p = Some e) (d_prev dt)) of
        [] \<Rightarrow> None
      | d # ds \<Rightarrow> Some (fold max ds d))"

definition c_first_day :: "data \<Rightarrow> xvars \<Rightarrow> bool" where
  "c_first_day dt x =
     (\<forall>e \<in> set (emp_ids dt).
        case dates_list dt of
          d # next_d # rest \<Rightarrow>
            (if last_prev_day_worked dt e = Some (d - 1)
             then \<not> works_on dt x e d \<or> works_on dt x e next_d else True)
        | _ \<Rightarrow> True)"

text \<open>
  The hard constraints that the builder posts for every worker. It reads \<open>weeks[0]\<close>
  first, which fails on an empty shift table. Left out are the rules for the workers
  named by literal id (10.1 to 10.8), the other variables of the objective (they can be
  given values whenever no worker's contract minutes are negative), and part 11.1, which
  posts nothing (it reads the pattern cell as a number, and fails on a cell that is
  neither empty nor a number).
\<close>

definition hard_constraints :: "data \<Rightarrow> xvars \<Rightarrow> uvars \<Rightarrow> bool" where
  "hard_constraints dt x u =
     (d_shifts dt \<noteq> [] \<and> c1_coverage dt x u \<and> c2_one_per_day dt x \<and> c3_after_night dt x
      \<and> c4_week_cap dt x \<and> c5_contract dt x \<and> c6_unavailable dt x
      \<and> c71_consecutive_nights dt x \<and> c72_rest_after_nights dt x
      \<and> c73_thirteen_weeks dt x \<and> c74_age dt x \<and> c8_qualification dt x
      \<and> c9_night_policy dt x \<and> c_first_day dt x)"

subsection \<open>Solving and extracting the assignments\<close>

datatype cp_status = UNKNOWN | MODEL_INVALID | FEASIBLE | INFEASIBLE | OPTIMAL

text \<open>A row of the assignments table: the shift's columns, the worker (if any), the fill flag.\<close>

record assignment =
  a_shift :: shift
  employee_id :: "emp option"
  employee_name :: "string option"
  a_deskundigheid :: "nat list option"
  shift_filled :: bool

text \<open>
  The inner loop over \<open>emp_ids\<close> stops at the first worker whose variable is 1; a shift
  with none gets the row without a worker.
\<close>

definition assignment_row :: "data \<Rightarrow> xvars \<Rightarrow> shift \<Rightarrow> assignment" where
  "assignment_row dt x r =
     (case find (\<lambda>e. x (shift_id r) e) (emp_ids dt) of
        Some e \<Rightarrow>
          \<lparr> a_shift = r, employee_id = Some e,
            employee_name = map_option medewerker_naam (lookup_worker dt e),
            a_deskundigheid = map_option deskundigheid (lookup_worker dt e),
            shift_filled = True \<rparr>
      | None \<Rightarrow>
          \<lparr> a_shift = r, employee_id = None, employee_name = None,
            a_deskundigheid = None, shift_filled = False \<rparr>)"

definition extract_assignments :: "data \<Rightarrow> xvars \<Rightarrow> assignment list" where
  "extract_assignments dt x = map (assignment_row dt x) (d_shifts dt)"

definition extract_uncovered :: "data \<Rightarrow> xvars \<Rightarrow> nat list" where
  "extract_uncovered dt x =
     map shift_id (filter (\<lambda>r. find (\<lambda>e. x (shift_id r) e) (emp_ids dt) = None) (d_shifts dt))"

text \<open>
  The returned dictionary, without the objective value and the table that appends the new
  rows to the prior ones.
\<close>

record result =
  assignments_df :: "assignment list"
  uncovered_shifts :: "nat list"
  solver_status :: cp_status

text \<open>
  The end of \<open>auto_rooster_standardized\<close>, given the status and the values the solver
  ends with: Python's \<open>None\<close> is \<open>None\<close>.
\<close>

definition auto_rooster_standardized :: "data \<Rightarrow> cp_status \<Rightarrow> xvars \<Rightarrow> result option" where
  "auto_rooster_standardized dt status x =
     (if status = OPTIMAL \<or> status = FEASIBLE then
        Some \<lparr> assignments_df = extract_assignments dt x,
               uncovered_shifts = extract_uncovered dt x,
               solver_status = status \<rparr>
      else None)"

section \<open>The validator (validate.py)\<close>

datatype py_error = IndexError | TypeError

text \<open>One constructor for each message the validator formats, with the values it prints.\<close>

datatype violation =
    MultipleEmployees nat "emp list"
  | MultipleShiftsOnDate emp date "nat list"
  | DayAfterNight emp date date
  | MaxDaysExceeded emp int nat int
  | ContractExceeded emp int int
  | FullyUnavailable emp date nat
  | UnavailableTime emp date nat
  | ConsecutiveNights emp nat "date list"
  | RestAfterNights emp "nat list" date date date
  | Nights13Weeks emp nat int
  | AgeNight emp int "nat list"

text \<open>\<open>dropna(subset=['employee_id'])\<close>: the rows with a worker, as pairs.\<close>

definition assigned_rows :: "result \<Rightarrow> (emp \<times> shift) list" where
  "assigned_rows res =
     concat (map (\<lambda>a. case employee_id a of None \<Rightarrow> [] | Some e \<Rightarrow> [(e, a_shift a)])
                 (assignments_df res))"

text \<open>\<open>groupby\<close> visits its groups in ascending key order.\<close>

definition group_keys :: "('r \<Rightarrow> 'k::linorder) \<Rightarrow> 'r list \<Rightarrow> 'k list" where
  "group_keys key rows = sort (remdups (map key rows))"

definition emp_group :: "(emp \<times> shift) list \<Rightarrow> emp \<Rightarrow> shift list" where
  "emp_group rows e = map snd (filter (\<lambda>r. fst r = e) rows)"

text \<open>Running the per-group bodies in order; a raised error ends the run.\<close>

fun collect :: "('k \<Rightarrow> py_error + violation list) \<Rightarrow> 'k list \<Rightarrow> py_error + violation list" where
  "collect f [] = Inr []"
| "collect f (k # ks) =
     (case f k of
        Inl e \<Rightarrow> Inl e
      | Inr v \<Rightarrow> (case collect f ks of Inl e \<Rightarrow> Inl e | Inr vs \<Rightarrow> Inr (v @ vs)))"

text \<open>
  Reading \<open>str(patroon).split(',')[0].strip()\<close> as an integer: ASCII digits, single
  underscores between them, an optional sign.
\<close>

definition is_space :: "char \<Rightarrow> bool" where
  "is_space c = (let n = (of_char c :: nat) in n = 32 \<or> (9 \<le> n \<and> n \<le> 13))"

definition strip :: "string \<Rightarrow> string" where
  "strip s = rev (dropWhile is_space (rev (dropWhile is_space s)))"

definition digit_of :: "char \<Rightarrow> nat option" where
  "digit_of c = (let n = (of_char c :: nat) in if 48 \<le> n \<and> n \<le> 57 then Some (n - 48) else None)"

fun digits_value :: "nat \<Rightarrow> string \<Rightarrow> nat option" where
  "digits_value acc [] = Some acc"
| "digits_value acc [c] = (case digit_of c of None \<Rightarrow> None | Some d \<Rightarrow> Some (10 * acc + d))"
| "digits_value acc (c # c' # cs) =
     (case digit_of c of
        None \<Rightarrow> None
      | Some d \<Rightarrow>
          if c' = CHR ''_'' then
            (case cs of
               [] \<Rightarrow> None
             | c'' # r \<Rightarrow>
                 if digit_of c'' = None then None else digits_value (10 * acc + d) cs)
          else digits_value (10 * acc + d) (c' # cs))"

definition py_int :: "string \<Rightarrow> int option" where
  "py_int s =
     (case strip s of
        [] \<Rightarrow> None
      | c # cs \<Rightarrow>
          if c = CHR ''-'' then (if cs = [] then None else map_option (\<lambda>n. - int n) (digits_value 0 cs))
          else if c = CHR ''+'' then (if cs = [] then None else map_option int (digits_value 0 cs))
          else map_option int (digits_value 0 (c # cs)))"

text \<open>The \<open>max_consec\<close> that the first loop of the validator computes for a worker row.\<close>

definition validator_max_consec :: "data \<Rightarrow> worker \<Rightarrow> int" where
  "validator_max_consec dt w =
     (case (lookup_worker dt (medewerker_id w), patroon w) of
        (Some w1, Some p) \<Rightarrow>
          if voorkeur_nacht w1 = ''uitsluitend'' then
            (let first = strip (takeWhile (\<lambda>c. c \<noteq> CHR '','') p)
             in if first = [] then 5 else (case py_int first of None \<Rightarrow> 5 | Some n \<Rightarrow> n))
          else 5
      | _ \<Rightarrow> 5)"

definition COA_7_1_exempt :: "data \<Rightarrow> emp list" where
  "COA_7_1_exempt dt =
     map medewerker_id (filter (\<lambda>w. validator_max_consec dt w \<noteq> 5) (d_workers dt))"

definition CAO_7_4_exempt :: "data \<Rightarrow> emp list" where
  "CAO_7_4_exempt dt = map medewerker_id (filter (\<lambda>w. voorkeur_nacht w \<noteq> ''niet'') (d_workers dt))"

text \<open>1) A shift with more than one worker.\<close>

definition check_coverage :: "(emp \<times> shift) list \<Rightarrow> violation list" where
  "check_coverage rows =
     concat (map (\<lambda>sid. let grp = filter (\<lambda>r. shift_id (snd r) = sid) rows
                         in if 1 < length grp then [MultipleEmployees sid (map fst grp)] else [])
                 (group_keys (\<lambda>r. shift_id (snd r)) rows))"

text \<open>2) A worker with more than one shift on a date.\<close>

definition check_one_per_day :: "(emp \<times> shift) list \<Rightarrow> violation list" where
  "check_one_per_day rows =
     concat (map (\<lambda>k. let grp = filter (\<lambda>r. (fst r, shift_date (snd r)) = k) rows
                       in if 1 < length grp
                          then [MultipleShiftsOnDate (fst k) (snd k) (map (\<lambda>r. shift_id (snd r)) grp)]
                          else [])
                 (group_keys (\<lambda>r. (fst r, shift_date (snd r))) rows))"

text \<open>3) A day or evening shift on the day after a night.\<close>

definition check_after_night :: "(emp \<times> shift) list \<Rightarrow> violation list" where
  "check_after_night rows =
     concat (map (\<lambda>e. let grp = emp_group rows e
                       in concat (map (\<lambda>ns.
                            if filter (\<lambda>s. \<not> is_night s)
                                 (filter (\<lambda>s. shift_date s = shift_date ns + 1) grp) \<noteq> []
                            then [DayAfterNight e (shift_date ns + 1) (shift_date ns)] else [])
                          (filter is_night grp)))
                 (group_keys fst rows))"

text \<open>4) More worked dates in a week than the worker's maximum.\<close>

definition check_week_cap :: "data \<Rightarrow> (emp \<times> shift) list \<Rightarrow> py_error + violation list" where
  "check_week_cap dt rows =
     collect (\<lambda>e. case lookup_worker dt e of
                    None \<Rightarrow> Inl IndexError
                  | Some w \<Rightarrow>
                      Inr (let grp = emp_group rows e
                           in concat (map (\<lambda>wk.
                                let worked_days =
                                      length (remdups (map shift_date (filter (\<lambda>s. week s = wk) grp)))
                                in if max_days_per_week w < int worked_days
                                   then [MaxDaysExceeded e wk worked_days (max_days_per_week w)]
                                   else [])
                              (group_keys week grp))))
             (group_keys fst rows)"

text \<open>5) More minutes than the contract allows over the weeks that have an assignment.\<close>

definition check_contract :: "data \<Rightarrow> (emp \<times> shift) list \<Rightarrow> py_error + violation list" where
  "check_contract dt rows =
     (let num_weeks = int (length (remdups (map (\<lambda>r. week (snd r)) rows)))
      in collect (\<lambda>e. case lookup_worker dt e of
                    None \<Rightarrow> Inl IndexError
                  | Some w \<Rightarrow>
                      Inr (let total_minutes = sum_list (map duration_min (emp_group rows e));
                               allowed_total = contract_minutes w * num_weeks
                           in if allowed_total < total_minutes
                              then [ContractExceeded e total_minutes allowed_total] else []))
             (group_keys fst rows))"

text \<open>
  6) A shift on a date and time at which the worker is unavailable. The check skips a
  shift when \<open>sr['shift_date'] != date_unb\<close>. The left side is a pandas Timestamp
  (the shift table's column, solver_standardized.py, lines 52 and 895), the right side a
  \<open>datetime.date\<close> or \<open>NaT\<close> (preprocessing.py, line 370). From version 2 on,
  pandas takes no Timestamp and no \<open>datetime.date\<close> for equal, whatever their values:
  the comparison is true for every pair, and every shift is skipped.
\<close>

definition timestamp_ne_date :: "date \<Rightarrow> date option \<Rightarrow> bool" where
  "timestamp_ne_date ts d = True"

definition check_unavailable_row :: "data \<Rightarrow> (emp \<times> shift) list \<Rightarrow> onb_row \<Rightarrow> violation list" where
  "check_unavailable_row dt rows r =
     (let e = o_medewerker_id r
      in if e \<notin> set (map medewerker_id (d_workers dt)) then []
         else if lower (o_beschikbaarheid r) = ''beschikbaar'' then []
         else concat (map (\<lambda>sr.
                if timestamp_ne_date (shift_date sr) (o_datum r) then []
                else (case (o_tijd_vanaf r, o_tijd_tm r) of
                        (Some a, Some b) \<Rightarrow>
                          if overlap sr a b then [UnavailableTime e (shift_date sr) (shift_id sr)]
                          else []
                      | _ \<Rightarrow> [FullyUnavailable e (shift_date sr) (shift_id sr)]))
              (emp_group rows e)))"

definition check_unavailable :: "data \<Rightarrow> (emp \<times> shift) list \<Rightarrow> violation list" where
  "check_unavailable dt rows = concat (map (check_unavailable_row dt rows) (d_onb dt))"

text \<open>7.1) A run of more than the maximum of consecutive nights.\<close>

definition night_dates_of :: "(emp \<times> shift) list \<Rightarrow> emp \<Rightarrow> date list" where
  "night_dates_of rows e = sort (map shift_date (filter is_night (emp_group rows e)))"

definition check_consecutive_nights :: "data \<Rightarrow> (emp \<times> shift) list \<Rightarrow> violation list" where
  "check_consecutive_nights dt rows =
     concat (map (\<lambda>e. let max_consec = (if e \<in> set (COA_7_1_exempt dt) then 7 else 5)
                       in concat (map (\<lambda>window.
                            if last window - hd window = int max_consec
                            then [ConsecutiveNights e max_consec window] else [])
                          (windows max_consec (night_dates_of rows e))))
                 (group_keys fst rows))"

text \<open>7.2) A shift on one of the two dates after three consecutive nights.\<close>

definition check_rest_after_nights :: "(emp \<times> shift) list \<Rightarrow> violation list" where
  "check_rest_after_nights rows =
     concat (map (\<lambda>e. let night_dates = night_dates_of rows e
                       in concat (map (\<lambda>t. case t of (d0, d1, d2) \<Rightarrow>
                            if d1 = d0 + 1 \<and> d2 = d1 + 1 \<and> d2 + 1 \<notin> set night_dates
                            then (let next_shifts =
                                        filter (\<lambda>s. shift_date s = d2 + 1 \<or> shift_date s = d2 + 2)
                                               (emp_group rows e)
                                  in if next_shifts \<noteq> []
                                     then [RestAfterNights e (map shift_id next_shifts) d0 d1 d2]
                                     else [])
                            else [])
                          (triples night_dates)))
                 (group_keys fst rows))"

text \<open>7.3) More than 35 nights in 13 weeks of the horizon.\<close>

definition check_thirteen_weeks :: "data \<Rightarrow> (emp \<times> shift) list \<Rightarrow> violation list" where
  "check_thirteen_weeks dt rows =
     concat (map (\<lambda>e. concat (map (\<lambda>start_week.
                          let window = filter (\<lambda>s. start_week \<le> week s \<and> week s < start_week + 13)
                                              (filter is_night (emp_group rows e))
                          in if 35 < length window
                             then [Nights13Weeks e (length window) start_week] else [])
                        [min_week dt..max_week dt - 13]))
                 (group_keys fst rows))"

text \<open>7.4) A night for a worker older than 55 whose night preference is \<open>niet\<close>.\<close>

definition check_age :: "data \<Rightarrow> (emp \<times> shift) list \<Rightarrow> py_error + violation list" where
  "check_age dt rows =
     collect (\<lambda>e. if e \<in> set (CAO_7_4_exempt dt) then Inr []
                  else (case lookup_worker dt e of
                          None \<Rightarrow> Inl IndexError
                        | Some w \<Rightarrow>
                            Inr (if 55 < leeftijd w \<and> filter is_night (emp_group rows e) \<noteq> []
                                 then [AgeNight e (leeftijd w)
                                         (map shift_id (filter is_night (emp_group rows e)))]
                                 else [])))
             (group_keys fst rows)"

text \<open>The list \<open>errors\<close> when the last check is done.\<close>

definition validate_errors :: "data \<Rightarrow> result \<Rightarrow> py_error + violation list" where
  "validate_errors dt res =
     (let rows = assigned_rows res
      in collect (\<lambda>c. c)
           [Inr (check_coverage rows), Inr (check_one_per_day rows), Inr (check_after_night rows),
            check_week_cap dt rows, check_contract dt rows, Inr (check_unavailable dt rows),
            Inr (check_consecutive_nights dt rows), Inr (check_rest_after_nights rows),
            Inr (check_thirteen_weeks dt rows), check_age dt rows])"

text \<open>
  The function ends after printing the list: it has no \<open>return\<close> statement, so the
  caller receives Python's \<open>None\<close> (here \<open>None\<close>) whatever the list holds.
\<close>

definition validate_auto_rooster :: "data \<Rightarrow> result \<Rightarrow> py_error + violation list option" where
  "validate_auto_rooster dt res =
     (case validate_errors dt res of Inl e \<Rightarrow> Inl e | Inr errors \<Rightarrow> Inr None)"

section \<open>The request handler (web/app.py)\<close>

record stats =
  total_shifts :: nat
  shifts_filled :: nat
  shifts_unfilled :: nat

datatype response =
    Success stats
  | Failed "violation list"
  | ServerError py_error

text \<open>Python's truth value of the validator's result.\<close>

definition truthy :: "violation list option \<Rightarrow> bool" where
  "truthy errors = (case errors of None \<Rightarrow> False | Some es \<Rightarrow> es \<noteq> [])"

text \<open>
  Steps 2 to 5 of \<open>generate_schedule\<close>, from the preprocessed data and the solver's
  outcome on. Subscripting the result \<open>None\<close> raises a \<open>TypeError\<close>, which the handler's
  \<open>except\<close> clause turns into the response with status 500.
\<close>

definition generate_schedule :: "data \<Rightarrow> cp_status \<Rightarrow> xvars \<Rightarrow> response" where
  "generate_schedule dt status x =
     (case auto_rooster_standardized dt status x of
        None \<Rightarrow> ServerError TypeError
      | Some res \<Rightarrow>
          (case validate_auto_rooster dt res of
             Inl e \<Rightarrow> ServerError e
           | Inr errors \<Rightarrow>
               if truthy errors then Failed (case errors of None \<Rightarrow> [] | Some es \<Rightarrow> es)
               else (let filled = length (filter shift_filled (assignments_df res))
                     in Success \<lparr> total_shifts = length (d_shifts dt), shifts_filled = filled,
                                  shifts_unfilled = length (d_shifts dt) - filled \<rparr>)))"

section \<open>Constant schedule and unavailability (preprocessing.py, lines 327-385)\<close>

text \<open>
  A row of the unavailability input. The kind is \<open>None\<close> for an empty cell, the date
  \<open>None\<close> for \<open>NaT\<close>; a time cell is what \<open>ensure_time\<close> makes of it.
\<close>

record raw_onb =
  ro_medewerker_id :: emp
  ro_datum :: "date option"
  ro_beschikbaarheid :: "string option"
  ro_tijd_vanaf :: "clock option"
  ro_tijd_tm :: "clock option"

record vast_row =
  v_medewerker_id :: emp
  v_dag :: string
  v_weekvolgnr :: int
  v_dienst :: string

definition day_map_const :: "string \<Rightarrow> int option" where
  "day_map_const =
     map_of [(''maandag'', 0), (''dinsdag'', 1), (''woensdag'', 2), (''donderdag'', 3),
             (''vrijdag'', 4), (''zaterdag'', 5), (''zondag'', 6)]"

text \<open>The target date of a row; a day name outside the map gives \<open>NaT\<close>.\<close>

definition target_date :: "date \<Rightarrow> vast_row \<Rightarrow> date option" where
  "target_date start_date v =
     map_option (\<lambda>d. start_date + ((v_weekvolgnr v - 1) * 7 + d)) (day_map_const (v_dag v))"

text \<open>\<open>find_shift_id\<close>: the id of the first catalogue shift of that name and weekday.\<close>

definition find_shift_id :: "shift list \<Rightarrow> vast_row \<Rightarrow> nat option" where
  "find_shift_id shifts_constant v =
     (case day_map_const (v_dag v) of
        None \<Rightarrow> None
      | Some d \<Rightarrow>
          map_option shift_id
            (find (\<lambda>s. shift_name s = v_dienst v \<and> day_of_week s = d) shifts_constant))"

definition const_unavail_entry :: "date \<Rightarrow> vast_row \<Rightarrow> raw_onb" where
  "const_unavail_entry start_date v =
     \<lparr> ro_medewerker_id = v_medewerker_id v, ro_datum = target_date start_date v,
       ro_beschikbaarheid = Some ''Niet beschikbaar (constant schedule)'',
       ro_tijd_vanaf = Some \<lparr>hour = 0, minute = 0, second = 0\<rparr>,
       ro_tijd_tm = Some \<lparr>hour = 23, minute = 59, second = 0\<rparr> \<rparr>"

text \<open>\<open>unique()\<close> keeps the first occurrence of each value.\<close>

definition unique :: "'a list \<Rightarrow> 'a list" where
  "unique xs = rev (remdups (rev xs))"

text \<open>The ids matched by a worker's rows, without the rows that matched nothing.\<close>

definition const_shift_ids :: "shift list \<Rightarrow> vast_row list \<Rightarrow> emp \<Rightarrow> nat list" where
  "const_shift_ids shifts_constant vast e =
     concat (map (\<lambda>v. case find_shift_id shifts_constant v of None \<Rightarrow> [] | Some i \<Rightarrow> [i])
                 (filter (\<lambda>v. v_medewerker_id v = e) vast))"

text \<open>The sum of \<open>duration_min\<close> over the catalogue rows whose id \<open>isin\<close> that list.\<close>

definition hours_to_subtract :: "shift list \<Rightarrow> vast_row list \<Rightarrow> emp \<Rightarrow> int" where
  "hours_to_subtract shifts_constant vast e =
     sum_list (map duration_min
       (filter (\<lambda>s. shift_id s \<in> set (const_shift_ids shifts_constant vast e)) shifts_constant))"

definition subtract_for :: "shift list \<Rightarrow> vast_row list \<Rightarrow> emp \<Rightarrow> worker list \<Rightarrow> worker list" where
  "subtract_for shifts_constant vast e ws =
     map (\<lambda>w. if medewerker_id w = e
              then w\<lparr>contract_minutes := contract_minutes w - hours_to_subtract shifts_constant vast e\<rparr>
              else w) ws"

text \<open>The constant schedule integration: the extended table and the reduced budgets.\<close>

definition integrate_constant ::
  "date \<Rightarrow> shift list \<Rightarrow> vast_row list \<Rightarrow> raw_onb list \<Rightarrow> worker list \<Rightarrow> raw_onb list \<times> worker list" where
  "integrate_constant start_date shifts_constant vast df_onb ws =
     (if vast = [] then (df_onb, ws)
      else (df_onb @ map (const_unavail_entry start_date) vast,
            fold (subtract_for shifts_constant vast) (unique (map v_medewerker_id vast)) ws))"

text \<open>The final columns of the unavailability table; an empty kind becomes \<open>Onbekend\<close>.\<close>

definition fill_onb_row :: "raw_onb \<Rightarrow> onb_row" where
  "fill_onb_row r =
     \<lparr> o_medewerker_id = ro_medewerker_id r, o_datum = ro_datum r,
       o_beschikbaarheid = (case ro_beschikbaarheid r of None \<Rightarrow> ''Onbekend'' | Some k \<Rightarrow> k),
       o_tijd_vanaf = ro_tijd_vanaf r, o_tijd_tm = ro_tijd_tm r \<rparr>"

definition preprocess_onb :: "raw_onb list \<Rightarrow> onb_row list" where
  "preprocess_onb df_onb = map fill_onb_row df_onb"

text \<open>
  The duration of the catalogue shift that a row matches (0 when it matches none), for
  stating the deduction row by row.
\<close>

definition matched_duration :: "shift list \<Rightarrow> vast_row \<Rightarrow> int" where
  "matched_duration shifts_constant v =
     (case find_shift_id shifts_constant v of
        None \<Rightarrow> 0
      | Some i \<Rightarrow> sum_list (map duration_min (filter (\<lambda>s. shift_id s = i) shifts_constant)))"

section \<open>Worked nights, counted as the specification counts them\<close>

text \<open>
  A worker works a night on a date when the date is one of the prior tail's night dates or
  the worker has a night shift of the horizon on it. The number of worked nights among the
  \<open>n + 1\<close> consecutive dates from \<open>d0\<close> on is what C7.1 bounds by \<open>n\<close>.
\<close>

definition worked_night :: "data \<Rightarrow> xvars \<Rightarrow> emp \<Rightarrow> date \<Rightarrow> bool" where
  "worked_night dt x e d =
     (d \<in> set (get_last_consecutive_block_dates (d_prev dt) e True) \<or> n_emp_date dt x e d)"

definition nights_in_window :: "data \<Rightarrow> xvars \<Rightarrow> emp \<Rightarrow> date \<Rightarrow> nat \<Rightarrow> nat" where
  "nights_in_window dt x e d0 n = length (filter (worked_night dt x e) [d0..d0 + int n])"

text \<open>
  The worker's nights in the 13 weeks (91 dates) from \<open>d0\<close> on: the assigned night shifts
  of the horizon and the prior nights with a date in the window.
\<close>

definition nights_in_13_weeks :: "data \<Rightarrow> xvars \<Rightarrow> emp \<Rightarrow> date \<Rightarrow> nat" where
  "nights_in_13_weeks dt x e d0 =
     length (filter (\<lambda>s. is_night s \<and> x (shift_id s) e \<and> d0 \<le> shift_date s \<and> shift_date s < d0 + 91)
                    (d_shifts dt))
     + length (filter (\<lambda>p. p_employee_id p = Some e \<and> p_is_night p
                            \<and> d0 \<le> p_shift_date p \<and> p_shift_date p < d0 + 91)
                      (d_prev dt))"

section \<open>Exclusion by an unavailability row, in the specification's words\<close>

text \<open>
  A row excludes when its kind is missing or, in lower case, differs from
  \<open>beschikbaar\<close>. A shift conflicts with the row's window when no time range is given, or
  when the half-open intervals from the shift's start to its end and from the window's
  start to its end overlap; the times are clock times, compared as they are, also for a
  shift that crosses midnight.
\<close>

definition excluding_kind :: "string option \<Rightarrow> bool" where
  "excluding_kind k = (case k of None \<Rightarrow> True | Some t \<Rightarrow> lower t \<noteq> ''beschikbaar'')"

definition intervals_overlap :: "shift \<Rightarrow> clock \<Rightarrow> clock \<Rightarrow> bool" where
  "intervals_overlap s from_time to_time =
     (clock_lt (start_time s) to_time \<and> clock_lt from_time (end_time s))"

definition window_conflict :: "raw_onb \<Rightarrow> shift \<Rightarrow> bool" where
  "window_conflict r s =
     (case (ro_tijd_vanaf r, ro_tijd_tm r) of
        (Some a, Some b) \<Rightarrow> intervals_overlap s a b
      | _ \<Rightarrow> True)"

section \<open>Example inputs\<close>

definition ex_day_row :: template_row where
  "ex_day_row = \<lparr> t_shifts = ''D1'', t_begintijd = \<lparr>hour = 8, minute = 0, second = 0\<rparr>,
      t_eindtijd = \<lparr>hour = 8, minute = 0, second = 0\<rparr>, t_deskundigheid = 3,
      t_days = [Ja, Nee, Nee, Nee, Nee, Nee, Nee] \<rparr>"

definition ex_night_row :: template_row where
  "ex_night_row = \<lparr> t_shifts = ''N'', t_begintijd = \<lparr>hour = 23, minute = 0, second = 0\<rparr>,
      t_eindtijd = \<lparr>hour = 7, minute = 0, second = 0\<rparr>, t_deskundigheid = 3,
      t_days = [Ja, Nee, Nee, Nee, Nee, Nee, Nee] \<rparr>"

definition ex_late_row :: template_row where
  "ex_late_row = \<lparr> t_shifts = ''N'', t_begintijd = \<lparr>hour = 21, minute = 30, second = 0\<rparr>,
      t_eindtijd = \<lparr>hour = 7, minute = 0, second = 0\<rparr>, t_deskundigheid = 3,
      t_days = [Ja, Nee, Nee, Nee, Nee, Nee, Nee] \<rparr>"

definition ex_late_prev :: raw_prev where
  "ex_late_prev = \<lparr> rp_mw_id = ''w1'', rp_datum_dienst = 0, rp_dienst = ''N'',
      rp_starttijd = \<lparr>hour = 21, minute = 30, second = 0\<rparr>,
      rp_eindtijd = \<lparr>hour = 7, minute = 0, second = 0\<rparr> \<rparr>"

definition ex_early_prev :: raw_prev where
  "ex_early_prev = \<lparr> rp_mw_id = ''w1'', rp_datum_dienst = 0, rp_dienst = ''D1'',
      rp_starttijd = \<lparr>hour = 5, minute = 0, second = 0\<rparr>,
      rp_eindtijd = \<lparr>hour = 13, minute = 0, second = 0\<rparr> \<rparr>"

text \<open>Short forms for writing example tables.\<close>

definition hm :: "nat \<Rightarrow> nat \<Rightarrow> clock" where
  "hm h m = \<lparr>hour = h, minute = m, second = 0\<rparr>"

definition mk_shift :: "nat \<Rightarrow> string \<Rightarrow> date \<Rightarrow> clock \<Rightarrow> clock \<Rightarrow> int \<Rightarrow> bool \<Rightarrow> shift" where
  "mk_shift i n d b e dur night =
     \<lparr> shift_id = i, shift_name = n, shift_date = d, week = d div 7 + 1, global_week = d div 7 + 1,
       day_of_week = d mod 7, absolute_day = d, start_time = b, end_time = e,
       duration_min = dur, qualification = [3], is_night = night, required = 1 \<rparr>"

definition mk_worker :: "emp \<Rightarrow> int \<Rightarrow> string \<Rightarrow> worker" where
  "mk_worker e age night =
     \<lparr> medewerker_id = e, medewerker_naam = ''name'', deskundigheid = [3], max_days_per_week = 5,
       contract_minutes = 2160, leeftijd = age, nachten = night, voorkeur_nacht = night,
       patroon = None \<rparr>"

text \<open>One day with a day shift and a night shift, one worker, who takes the day shift.\<close>

definition ex1_data :: data where
  "ex1_data = \<lparr> d_shifts = [mk_shift 0 ''D1'' 0 (hm 8 0) (hm 16 0) 480 False,
                            mk_shift 1 ''N'' 0 (hm 23 0) (hm 7 0) 480 True],
                d_workers = [mk_worker ''w1'' 30 ''ja''], d_onb = [], d_prev = [] \<rparr>"

definition ex1_x :: xvars where
  "ex1_x s e = (s = 0 \<and> e = ''w1'')"

definition ex1_u :: uvars where
  "ex1_u s = (s = 1)"

definition mk_prev :: "nat \<Rightarrow> emp \<Rightarrow> date \<Rightarrow> int \<Rightarrow> clock \<Rightarrow> clock \<Rightarrow> bool \<Rightarrow> prev_assignment" where
  "mk_prev i e d first_day b en night =
     \<lparr> p_employee_id = Some e, p_shift_date = d, p_shift_name = ''N'', p_start_time = b,
       p_end_time = en, p_shift_id = i, p_is_night = night, p_duration_min = 480,
       p_day_of_week = d mod 7, p_absolute_day = d - first_day, p_week = (d - first_day) div 7,
       p_global_week = (d - (first_day - first_day mod 7)) div 7 \<rparr>"

text \<open>
  A week with one night shift on each date. The worker has prior nights on the two dates
  before the horizon and takes the nights of the first four dates; the other three stay
  uncovered.
\<close>

definition ex2_data :: data where
  "ex2_data =
     \<lparr> d_shifts = map (\<lambda>i. mk_shift i ''N'' (int i) (hm 23 0) (hm 7 0) 480 True) [0..<7],
       d_workers = [mk_worker ''w1'' 30 ''ja''], d_onb = [],
       d_prev = [mk_prev 0 ''w1'' (- 2) (- 2) (hm 23 0) (hm 7 0) True,
                 mk_prev 1 ''w1'' (- 1) (- 2) (hm 23 0) (hm 7 0) True] \<rparr>"

definition ex2_x :: xvars where
  "ex2_x s e = (s < 4 \<and> e = ''w1'')"

definition ex2_u :: uvars where
  "ex2_u s = (4 \<le> s)"

text \<open>
  Nights on Monday, Tuesday and Wednesday, no shift on Thursday, a day shift on Friday;
  the worker takes all four.
\<close>

definition ex3_data :: data where
  "ex3_data =
     \<lparr> d_shifts = [mk_shift 0 ''N'' 0 (hm 23 0) (hm 7 0) 480 True,
                   mk_shift 1 ''N'' 1 (hm 23 0) (hm 7 0) 480 True,
                   mk_shift 2 ''N'' 2 (hm 23 0) (hm 7 0) 480 True,
                   mk_shift 3 ''D1'' 4 (hm 8 0) (hm 16 0) 480 False],
       d_workers = [mk_worker ''w1'' 30 ''ja''], d_onb = [], d_prev = [] \<rparr>"

definition ex3_x :: xvars where
  "ex3_x s e = (s < 4 \<and> e = ''w1'')"

definition ex3_u :: uvars where
  "ex3_u s = False"

definition ex3_result :: result where
  "ex3_result = \<lparr> assignments_df = extract_assignments ex3_data ex3_x,
                   uncovered_shifts = extract_uncovered ex3_data ex3_x,
                   solver_status = OPTIMAL \<rparr>"

text \<open>
  The week of \<open>ex2_data\<close> after seven prior weeks of five nights (Monday to Friday) and
  two days off: 35 prior nights, the last one three days before the horizon.
\<close>

definition ex4_prev :: "prev_assignment list" where
  "ex4_prev =
     map (\<lambda>i. mk_prev i ''w1'' (- 49 + 7 * int (i div 5) + int (i mod 5)) (- 49)
                 (hm 23 0) (hm 7 0) True) [0..<35]"

definition ex4_data :: data where
  "ex4_data = ex2_data \<lparr> d_prev := ex4_prev \<rparr>"

text \<open>A worker of 55 (and the same worker at 54) with night preference \<open>niet\<close>, on the night shift.\<close>

definition ex6_data :: data where
  "ex6_data = ex1_data \<lparr> d_workers := [mk_worker ''w1'' 55 ''niet''] \<rparr>"

definition ex6_younger :: data where
  "ex6_younger = ex1_data \<lparr> d_workers := [mk_worker ''w1'' 54 ''niet''] \<rparr>"

definition ex6_x :: xvars where
  "ex6_x s e = (s = 1 \<and> e = ''w1'')"

definition ex6_u :: uvars where
  "ex6_u s = (s = 0)"

definition ex6_result :: result where
  "ex6_result = \<lparr> assignments_df = extract_assignments ex6_data ex6_x,
                   uncovered_shifts = extract_uncovered ex6_data ex6_x,
                   solver_status = OPTIMAL \<rparr>"

text \<open>
  A catalogue shift \<open>KOK\<close> on Mondays over a horizon of two weeks, and a constant schedule
  that gives it to one worker in week 1 and in week 2.
\<close>

definition ex9_template :: "template_row list" where
  "ex9_template = [\<lparr> t_shifts = ''KOK'', t_begintijd = hm 8 0, t_eindtijd = hm 16 0,
                      t_deskundigheid = 3, t_days = [Ja, Nee, Nee, Nee, Nee, Nee, Nee] \<rparr>]"

definition ex9_constant :: "shift list" where
  "ex9_constant = preprocess_shifts_constant ex9_template [] 0 2"

definition ex9_vast :: "vast_row list" where
  "ex9_vast = [\<lparr> v_medewerker_id = ''w1'', v_dag = ''maandag'', v_weekvolgnr = 1, v_dienst = ''KOK'' \<rparr>,
               \<lparr> v_medewerker_id = ''w1'', v_dag = ''maandag'', v_weekvolgnr = 2, v_dienst = ''KOK'' \<rparr>]"

definition ex9_single :: "vast_row list" where
  "ex9_single = [\<lparr> v_medewerker_id = ''w1'', v_dag = ''maandag'', v_weekvolgnr = 1, v_dienst = ''KOK'' \<rparr>]"

text \<open>
  The day of \<open>ex1_data\<close> with a row of missing kind for the worker, from 10:00 to 12:00;
  the worker takes the night shift.
\<close>

definition ex10_raw :: "raw_onb list" where
  "ex10_raw = [\<lparr> ro_medewerker_id = ''w1'', ro_datum = Some 0, ro_beschikbaarheid = None,
                  ro_tijd_vanaf = Some (hm 10 0), ro_tijd_tm = Some (hm 12 0) \<rparr>]"

definition ex10_data :: data where
  "ex10_data = ex1_data \<lparr> d_onb := preprocess_onb ex10_raw \<rparr>"

definition ex10_x :: xvars where
  "ex10_x s e = (s = 1 \<and> e = ''w1'')"

definition ex10_u :: uvars where
  "ex10_u s = (s = 0)"

text \<open>The same day with the row's kind set to a given text.\<close>

definition ex10_kind :: "string \<Rightarrow> data" where
  "ex10_kind k =
     ex1_data \<lparr> d_onb := preprocess_onb (map (\<lambda>r. r\<lparr>ro_beschikbaarheid := Some k\<rparr>) ex10_raw) \<rparr>"

text \<open>A table that puts the worker on the day shift, inside the window of the row.\<close>

definition ex10_table :: result where
  "ex10_table = \<lparr> assignments_df = extract_assignments ex10_data ex1_x,
                   uncovered_shifts = extract_uncovered ex10_data ex1_x,
                   solver_status = FEASIBLE \<rparr>"

text \<open>
  A week with a night shift and a day shift on each date, after prior nights on the two
  dates before the horizon: the worker takes the nights of the first two dates and the
  day shift of the fourth.
\<close>

definition ex3b_data :: data where
  "ex3b_data =
     \<lparr> d_shifts = map (\<lambda>i. mk_shift i ''N'' (int i) (hm 23 0) (hm 7 0) 480 True) [0..<7]
                  @ map (\<lambda>i. mk_shift (7 + i) ''D1'' (int i) (hm 8 0) (hm 16 0) 480 False) [0..<7],
       d_workers = [mk_worker ''w1'' 30 ''ja''], d_onb = [],
       d_prev = [mk_prev 0 ''w1'' (- 2) (- 2) (hm 23 0) (hm 7 0) True,
                 mk_prev 1 ''w1'' (- 1) (- 2) (hm 23 0) (hm 7 0) True] \<rparr>"

definition ex3b_x :: xvars where
  "ex3b_x s e = ((s = 0 \<or> s = 1 \<or> s = 10) \<and> e = ''w1'')"

definition ex3b_u :: uvars where
  "ex3b_u s = (s \<noteq> 0 \<and> s \<noteq> 1 \<and> s \<noteq> 10)"

section \<open>Night flag of preprocessed shifts\<close>

lemma secs_less_iff:
  assumes "valid_clock a" "valid_clock b"
  shows "secs a < secs b \<longleftrightarrow> clock_lt a b"
  using assms unfolding valid_clock_def secs_def clock_lt_def by auto

lemma reindex_fields:
  assumes "s \<in> set (reindex ss)"
  shows "\<exists>s0 \<in> set ss. is_night s = is_night s0 \<and> start_time s = start_time s0 \<and> end_time s = end_time s0"
  using assms unfolding reindex_def by (auto simp: in_set_enumerate_eq)

lemma shift_instance_night:
  "is_night (shift_instance sd gsd wk r) = (secs (r_end_time r) < secs (r_start_time r))"
  "start_time (shift_instance sd gsd wk r) = r_start_time r"
  "end_time (shift_instance sd gsd wk r) = r_end_time r"
  by (simp_all add: shift_instance_def Let_def)

lemma row_requirements_times:
  assumes "r \<in> set (row_requirements row)"
  shows "r_start_time r = t_begintijd row \<and> r_end_time r = t_eindtijd row"
proof -
  from assms obtain i v where "r \<in> set (case v of Ja \<Rightarrow> [requirement_of row i 1]
                    | Facultatief \<Rightarrow> [requirement_of row i (1 / 2)]
                    | Nee \<Rightarrow> [])"
    unfolding row_requirements_def by auto
  then show ?thesis by (cases v) (simp_all add: requirement_of_def)
qed

lemma preprocess_instances_night:
  assumes "s \<in> set (preprocess_instances df prev today n)"
  shows "\<exists>row \<in> set df. start_time s = t_begintijd row \<and> end_time s = t_eindtijd row \<and>
           is_night s = (secs (t_eindtijd row) < secs (t_begintijd row))"
proof -
  obtain sd gsd where sg: "start_dates prev today = (sd, gsd)" by (cases "start_dates prev today")
  from assms sg have "s \<in> set (reindex (concat (map (\<lambda>wk. map (shift_instance sd gsd (int wk)) (shift_requirements df)) [0..<n])))"
    unfolding preprocess_instances_def all_shift_instances_def by simp
  from reindex_fields[OF this] obtain s0 where s0: "s0 \<in> set (concat (map (\<lambda>wk. map (shift_instance sd gsd (int wk)) (shift_requirements df)) [0..<n]))"
    and eq: "is_night s = is_night s0" "start_time s = start_time s0" "end_time s = end_time s0"
    by blast
  from s0 obtain wk r where r: "r \<in> set (shift_requirements df)" and s0eq: "s0 = shift_instance sd gsd wk r"
    by auto
  from r obtain row where row: "row \<in> set df" "r \<in> set (row_requirements row)"
    unfolding shift_requirements_def by auto
  from row_requirements_times[OF row(2)] have "r_start_time r = t_begintijd row \<and> r_end_time r = t_eindtijd row" .
  with eq s0eq row(1) show ?thesis by (auto simp: shift_instance_night)
qed

lemma canonical_prev_night:
  assumes "p \<in> set (canonical_prev df)"
  shows "p_is_night p = prev_is_night (p_start_time p)"
proof -
  define rows where "rows = sort_key p_shift_date (map prev_fields (enumerate 0 df))"
  define f where "f = min_date (map p_shift_date rows)"
  define g where "g = f - weekday f"
  have cp: "canonical_prev df = map (\<lambda>p. p\<lparr> p_day_of_week := weekday (p_shift_date p),
                      p_absolute_day := p_shift_date p - f,
                      p_week := (p_shift_date p - f) div 7,
                      p_global_week := (p_shift_date p - g) div 7 \<rparr>) rows"
    unfolding canonical_prev_def Let_def rows_def f_def g_def by simp
  from assms obtain q where q: "q \<in> set rows"
    and pq: "p = q\<lparr> p_day_of_week := weekday (p_shift_date q),
                      p_absolute_day := p_shift_date q - f,
                      p_week := (p_shift_date q - f) div 7,
                      p_global_week := (p_shift_date q - g) div 7 \<rparr>"
    unfolding cp by auto
  from q obtain ir where "q = prev_fields ir" unfolding rows_def by auto
  then have "p_is_night q = prev_is_night (p_start_time q)"
    by (cases ir) (simp add: prev_fields_def)
  with pq show ?thesis by simp
qed

text \<open>
  Claim C8, as the code has it by design: for every shift instance that preprocessing
  builds from the weekly template (the shifts of the decision model and the constant
  catalogue alike) the night flag is set exactly when the end time is strictly earlier
  than the start time.
\<close>

theorem is_night_preprocessed:
  assumes "\<forall>row \<in> set df. valid_clock (t_begintijd row) \<and> valid_clock (t_eindtijd row)"
  shows "\<forall>s \<in> set (preprocess_shifts df prev today n) \<union> set (preprocess_shifts_constant df prev today n).
            is_night s \<longleftrightarrow> clock_lt (end_time s) (start_time s)"
proof (intro ballI)
  fix s assume "s \<in> set (preprocess_shifts df prev today n) \<union> set (preprocess_shifts_constant df prev today n)"
  then have "s \<in> set (reindex (filter (\<lambda>s. \<not> is_constant_name (shift_name s)) (preprocess_instances df prev today n)))
     \<or> s \<in> set (reindex (filter (\<lambda>s. is_constant_name (shift_name s)) (preprocess_instances df prev today n)))"
    unfolding preprocess_shifts_def preprocess_shifts_constant_def shifts_of_def shifts_constant_of_def by simp
  then obtain s0 where s0: "s0 \<in> set (preprocess_instances df prev today n)"
    and eq: "is_night s = is_night s0" "start_time s = start_time s0" "end_time s = end_time s0"
    using reindex_fields [of s] by fastforce
  from preprocess_instances_night[OF s0] obtain row where row: "row \<in> set df"
    "start_time s0 = t_begintijd row" "end_time s0 = t_eindtijd row"
    "is_night s0 = (secs (t_eindtijd row) < secs (t_begintijd row))" by blast
  with assms have "valid_clock (t_begintijd row)" "valid_clock (t_eindtijd row)" by auto
  then have "secs (t_eindtijd row) < secs (t_begintijd row) \<longleftrightarrow> clock_lt (t_eindtijd row) (t_begintijd row)"
    by (simp add: secs_less_iff)
  with eq row show "is_night s \<longleftrightarrow> clock_lt (end_time s) (start_time s)" by simp
qed

lemma ex_day_row_shifts:
  "preprocess_shifts [ex_day_row] [] 0 (Suc 0) =
     [\<lparr>shift_id = 0, shift_name = ''D1'', shift_date = 0, week = 1,
       global_week = 1, day_of_week = 0, absolute_day = 0,
       start_time = \<lparr>hour = 8, minute = 0, second = 0\<rparr>,
       end_time = \<lparr>hour = 8, minute = 0, second = 0\<rparr>, duration_min = 0,
       qualification = [3], is_night = False, required = 1\<rparr>]"
  by (simp add: preprocess_shifts_def preprocess_instances_def start_dates_def weekday_def
      all_shift_instances_def shift_requirements_def row_requirements_def requirement_of_def
      shift_instance_def shifts_of_def reindex_def is_constant_name_def ex_day_row_def
      duur_def secs_def round_half_even_def Let_def)

lemma ex_night_row_shifts:
  "preprocess_shifts [ex_night_row] [] 0 (Suc 0) =
     [\<lparr>shift_id = 0, shift_name = ''N'', shift_date = 0, week = 1,
       global_week = 1, day_of_week = 0, absolute_day = 0,
       start_time = \<lparr>hour = 23, minute = 0, second = 0\<rparr>,
       end_time = \<lparr>hour = 7, minute = 0, second = 0\<rparr>, duration_min = 480,
       qualification = [3], is_night = True, required = 1\<rparr>]"
  by (simp add: preprocess_shifts_def preprocess_instances_def start_dates_def weekday_def
      all_shift_instances_def shift_requirements_def row_requirements_def requirement_of_def
      shift_instance_def shifts_of_def reindex_def is_constant_name_def ex_night_row_def
      duur_def secs_def round_half_even_def Let_def)

theorem is_night_preprocessed_witness:
  "valid_clock (t_begintijd ex_night_row) \<and> valid_clock (t_eindtijd ex_night_row)
   \<and> clock_lt (end_time (hd (preprocess_shifts [ex_night_row] [] 0 1)))
               (start_time (hd (preprocess_shifts [ex_night_row] [] 0 1)))
   \<and> is_night (hd (preprocess_shifts [ex_night_row] [] 0 1))"
proof -
  have v: "\<forall>row \<in> set [ex_night_row]. valid_clock (t_begintijd row) \<and> valid_clock (t_eindtijd row)"
    by (simp add: ex_night_row_def valid_clock_def)
  have m: "hd (preprocess_shifts [ex_night_row] [] 0 1) \<in> set (preprocess_shifts [ex_night_row] [] 0 1)"
    by (simp add: ex_night_row_shifts)
  have c: "clock_lt (end_time (hd (preprocess_shifts [ex_night_row] [] 0 1)))
               (start_time (hd (preprocess_shifts [ex_night_row] [] 0 1)))"
    by (simp add: ex_night_row_shifts clock_lt_def)
  from is_night_preprocessed [OF v, of "[]" 0 1] m c
  have "is_night (hd (preprocess_shifts [ex_night_row] [] 0 1))"
    by blast
  with v c show ?thesis by simp
qed

text \<open>
  Claim C8 as stated fails on the template: a shift from 08:00 to 08:00 has
  end \<open>\<le>\<close> start and is not a night.
\<close>

theorem is_night_end_le_start_counterexample:
  "length (preprocess_shifts [ex_day_row] [] 0 1) = 1
   \<and> \<not> is_night (hd (preprocess_shifts [ex_day_row] [] 0 1))
   \<and> clock_le (end_time (hd (preprocess_shifts [ex_day_row] [] 0 1)))
               (start_time (hd (preprocess_shifts [ex_day_row] [] 0 1)))"
  by (simp add: ex_day_row_shifts clock_le_def clock_lt_def)

text \<open>
  The flag of a prior assignment is not set by that rule: it follows the start hour
  alone, so that the same function gives the same pair of times different flags in its
  two tables. From 05:00 to 13:00 is a night in the history; from 21:30 to 07:00 is a
  night in the horizon and none in the history.
\<close>

lemma prior_night_flag_by_start_hour:
  "length (canonical_prev [ex_early_prev]) = 1
   \<and> p_is_night (hd (canonical_prev [ex_early_prev]))
   \<and> \<not> clock_le (p_end_time (hd (canonical_prev [ex_early_prev])))
                 (p_start_time (hd (canonical_prev [ex_early_prev])))
   \<and> length (canonical_prev [ex_late_prev]) = 1
   \<and> \<not> p_is_night (hd (canonical_prev [ex_late_prev]))
   \<and> clock_lt (p_end_time (hd (canonical_prev [ex_late_prev])))
                (p_start_time (hd (canonical_prev [ex_late_prev])))
   \<and> length (preprocess_shifts [ex_late_row] [] 0 1) = 1
   \<and> is_night (hd (preprocess_shifts [ex_late_row] [] 0 1))
   \<and> start_time (hd (preprocess_shifts [ex_late_row] [] 0 1))
       = p_start_time (hd (canonical_prev [ex_late_prev]))
   \<and> end_time (hd (preprocess_shifts [ex_late_row] [] 0 1))
       = p_end_time (hd (canonical_prev [ex_late_prev]))"
  by code_simp

section \<open>Coverage and the assignments table\<close>

lemma sum_b2i_filter:
  "sum_list (map (\<lambda>e. b2i (P e)) xs) = int (length (filter P xs))"
  by (induction xs) (simp_all add: b2i_def)

lemma find_None_filter: "find P xs = None \<longleftrightarrow> filter P xs = []"
  by (induction xs) simp_all

lemma filter_distinct_key:
  assumes "distinct (map f xs)" "x \<in> set xs"
  shows "filter (\<lambda>y. f y = f x) xs = [x]"
  using assms
proof (induction xs)
  case Nil then show ?case by simp
next
  case (Cons a xs)
  show ?case
  proof (cases "a = x")
    case True
    with Cons.prems have "\<forall>y \<in> set xs. f y \<noteq> f x" by (auto simp: image_iff)
    then have "filter (\<lambda>y. f y = f x) xs = []" by (simp add: filter_empty_conv)
    with True show ?thesis by simp
  next
    case False
    with Cons.prems have "x \<in> set xs" "f a \<noteq> f x" by (auto simp: image_iff)
    with Cons show ?thesis by simp
  qed
qed

lemma a_shift_assignment_row [simp]: "a_shift (assignment_row dt x r) = r"
  by (simp add: assignment_row_def split: option.splits)

lemma filter_extract:
  "filter (\<lambda>a. shift_id (a_shift a) = k) (extract_assignments dt x)
     = map (assignment_row dt x) (filter (\<lambda>r. shift_id r = k) (d_shifts dt))"
  by (simp add: extract_assignments_def filter_map comp_def)

lemma find_hd_filter: "filter P xs = e # r \<Longrightarrow> find P xs = Some e"
  by (induction xs) (auto split: if_splits)

lemma solved_assignments:
  assumes "auto_rooster_standardized dt status x = Some res"
  shows "assignments_df res = extract_assignments dt x" "status = OPTIMAL \<or> status = FEASIBLE"
  using assms by (auto simp: auto_rooster_standardized_def split: if_splits)

text \<open>The shift ids that preprocessing assigns are the row indices, hence distinct.\<close>

lemma reindex_ids: "map shift_id (reindex ss) = [0..<length ss]"
proof -
  have "map shift_id (reindex ss) = map fst (enumerate 0 ss)"
    unfolding reindex_def by (simp add: case_prod_unfold comp_def)
  then show ?thesis by (simp add: map_fst_enumerate)
qed

lemma preprocess_shifts_distinct:
  "distinct (map shift_id (preprocess_shifts df prev today n))"
  by (simp add: preprocess_shifts_def shifts_of_def reindex_ids)

text \<open>
  Claim C1: in every solution that satisfies the hard constraints, the variables of a
  shift and its slack add up to exactly 1; and when shift ids are distinct, the returned
  assignments table has exactly one row for the shift: the row without a worker and with
  \<open>shift_filled\<close> false when the slack is 1 (and then no worker has the shift), a row
  with the one worker who has the shift, and \<open>shift_filled\<close> true, when the slack is 0.
\<close>

theorem coverage_exactly_one:
  assumes hc: "hard_constraints dt x u"
    and dist: "distinct (map shift_id (d_shifts dt))"
    and res: "auto_rooster_standardized dt status x = Some res"
    and s: "s \<in> set (d_shifts dt)"
  shows "sum_list (map (\<lambda>e. b2i (x (shift_id s) e)) (emp_ids dt)) + b2i (u (shift_id s)) = 1
     \<and> (\<exists>a. filter (\<lambda>a. shift_id (a_shift a) = shift_id s) (assignments_df res) = [a]
            \<and> (if u (shift_id s)
                 then employee_id a = None \<and> \<not> shift_filled a
                      \<and> filter (\<lambda>e. x (shift_id s) e) (emp_ids dt) = []
                 else \<exists>e. employee_id a = Some e \<and> shift_filled a
                      \<and> filter (\<lambda>e. x (shift_id s) e) (emp_ids dt) = [e]))"
proof -
  let ?P = "\<lambda>e. x (shift_id s) e"
  from hc have "c1_coverage dt x u" by (simp add: hard_constraints_def)
  with s have cov: "sum_list (map (\<lambda>e. b2i (?P e)) (emp_ids dt)) + b2i (u (shift_id s)) = 1"
    by (simp add: c1_coverage_def)
  then have len: "int (length (filter ?P (emp_ids dt))) + b2i (u (shift_id s)) = 1"
    by (simp add: sum_b2i_filter)
  have row: "filter (\<lambda>a. shift_id (a_shift a) = shift_id s) (assignments_df res)
               = [assignment_row dt x s]"
    using solved_assignments(1)[OF res] filter_distinct_key[OF dist s]
    by (simp add: filter_extract)
  have "if u (shift_id s)
        then employee_id (assignment_row dt x s) = None \<and> \<not> shift_filled (assignment_row dt x s)
             \<and> filter ?P (emp_ids dt) = []
        else \<exists>e. employee_id (assignment_row dt x s) = Some e \<and> shift_filled (assignment_row dt x s)
             \<and> filter ?P (emp_ids dt) = [e]"
  proof (cases "u (shift_id s)")
    case True
    with len have f: "filter ?P (emp_ids dt) = []" by (simp add: b2i_def)
    then have "find ?P (emp_ids dt) = None" by (simp add: find_None_filter)
    with True f show ?thesis by (simp add: assignment_row_def)
  next
    case False
    with len have "length (filter ?P (emp_ids dt)) = 1" by (simp add: b2i_def)
    then obtain e where f: "filter ?P (emp_ids dt) = [e]"
      by (cases "filter ?P (emp_ids dt)") simp_all
    then have "find ?P (emp_ids dt) = Some e" by (rule find_hd_filter)
    with False f show ?thesis by (simp add: assignment_row_def)
  qed
  with cov row show ?thesis by blast
qed

lemma ex1_solved:
  "auto_rooster_standardized ex1_data OPTIMAL ex1_x
     = Some \<lparr> assignments_df = extract_assignments ex1_data ex1_x,
               uncovered_shifts = extract_uncovered ex1_data ex1_x, solver_status = OPTIMAL \<rparr>"
  by (simp add: auto_rooster_standardized_def)

theorem coverage_exactly_one_witness:
  "hard_constraints ex1_data ex1_x ex1_u
   \<and> distinct (map shift_id (d_shifts ex1_data))
   \<and> hd (d_shifts ex1_data) \<in> set (d_shifts ex1_data)
   \<and> sum_list (map (\<lambda>e. b2i (ex1_x (shift_id (hd (d_shifts ex1_data))) e)) (emp_ids ex1_data))
        + b2i (ex1_u (shift_id (hd (d_shifts ex1_data)))) = 1
   \<and> (\<exists>a. filter (\<lambda>a. shift_id (a_shift a) = shift_id (hd (d_shifts ex1_data)))
                  (extract_assignments ex1_data ex1_x) = [a]
          \<and> employee_id a = Some ''w1'' \<and> shift_filled a)"
proof -
  have h: "hard_constraints ex1_data ex1_x ex1_u" by code_simp
  have d: "distinct (map shift_id (d_shifts ex1_data))" by code_simp
  have m: "hd (d_shifts ex1_data) \<in> set (d_shifts ex1_data)" by (simp add: ex1_data_def)
  have nu: "\<not> ex1_u (shift_id (hd (d_shifts ex1_data)))" by code_simp
  have f: "filter (\<lambda>e. ex1_x (shift_id (hd (d_shifts ex1_data))) e) (emp_ids ex1_data) = [''w1'']"
    by code_simp
  from coverage_exactly_one [OF h d ex1_solved m] nu f
  have "sum_list (map (\<lambda>e. b2i (ex1_x (shift_id (hd (d_shifts ex1_data))) e)) (emp_ids ex1_data))
        + b2i (ex1_u (shift_id (hd (d_shifts ex1_data)))) = 1
   \<and> (\<exists>a. filter (\<lambda>a. shift_id (a_shift a) = shift_id (hd (d_shifts ex1_data)))
                  (extract_assignments ex1_data ex1_x) = [a]
          \<and> employee_id a = Some ''w1'' \<and> shift_filled a)"
    by auto
  with h d m show ?thesis by blast
qed

section \<open>Consecutive nights across the start of the horizon\<close>

text \<open>
  Claim C2 fails on the code. For each window of consecutive dates, the builder bounds the
  sum over the night shifts of the window's horizon dates only; the prior tail's dates in
  the window add nothing to the sum. With prior nights on the two dates before the
  horizon, the hard constraints accept nights on the first four dates of the horizon:
  six worked nights on six consecutive dates, for a worker whose cap is 5.
\<close>

theorem consecutive_nights_prior_tail_uncounted:
  "hard_constraints ex2_data ex2_x ex2_u
   \<and> max_consec_of ''w1'' = 5
   \<and> get_last_consecutive_block_dates (d_prev ex2_data) ''w1'' True = [- 2, - 1]
   \<and> nights_in_window ex2_data ex2_x ''w1'' (- 2) (max_consec_of ''w1'') = 6"
  by code_simp

section \<open>Rest after a block of nights\<close>

text \<open>
  Claim C3 fails on the code. The builder skips the rest rule for the nights
  \<open>d0, d1, d2\<close> whenever \<open>d2 + 1\<close> is not a date of the horizon's shift table, also when
  \<open>d2 + 2\<close> is one. With nights on Monday to Wednesday, no shift on Thursday and a day
  shift on Friday, the hard constraints accept the worker on all four shifts: three
  consecutive nights, no night on Thursday, and a shift on \<open>d2 + 2\<close>. The validator's
  check of the same rule reports this assignment.
\<close>

theorem rest_after_nights_skipped:
  "hard_constraints ex3_data ex3_x ex3_u
   \<and> n_emp_date ex3_data ex3_x ''w1'' 0 \<and> n_emp_date ex3_data ex3_x ''w1'' 1
   \<and> n_emp_date ex3_data ex3_x ''w1'' 2 \<and> \<not> n_emp_date ex3_data ex3_x ''w1'' 3
   \<and> works_on ex3_data ex3_x ''w1'' 4
   \<and> check_rest_after_nights (assigned_rows ex3_result) = [RestAfterNights ''w1'' [3] 0 1 2]"
  by code_simp

text \<open>
  The same gap at the start of the horizon: a prior tail of two nights is shorter than
  three, so it blocks nothing, and the rule inside the horizon needs three dates of the
  horizon. After prior nights on the two dates before the horizon, the hard constraints
  accept nights on the first two dates and a day shift on the fourth, two days after the
  last of four consecutive nights.
\<close>

lemma rest_after_nights_across_boundary:
  "hard_constraints ex3b_data ex3b_x ex3b_u
   \<and> worked_night ex3b_data ex3b_x ''w1'' (- 1) \<and> worked_night ex3b_data ex3b_x ''w1'' 0
   \<and> worked_night ex3b_data ex3b_x ''w1'' 1 \<and> \<not> worked_night ex3b_data ex3b_x ''w1'' 2
   \<and> works_on ex3b_data ex3b_x ''w1'' 3"
  by code_simp

section \<open>Nights in thirteen weeks\<close>

text \<open>
  Claim C4 fails on the code. The builder posts the bound of 35 only for the windows that
  start at a week of the horizon and end at or before its last week: none at all for a
  horizon shorter than 13 weeks. After 35 prior nights in the seven weeks before the
  horizon, the hard constraints accept four more nights in the first week: 39 nights in
  the 13 weeks that end with that week.
\<close>

theorem thirteen_week_cap_not_posted:
  "hard_constraints ex4_data ex2_x ex2_u
   \<and> weeks ex4_data = [1]
   \<and> nights_in_13_weeks ex4_data ex2_x ''w1'' (- 84) = 39"
  by code_simp

section \<open>What the validator returns\<close>

text \<open>
  Claim C5 fails on the code. The validator collects its messages and returns nothing:
  for the assignment of \<open>ex3_data\<close> the list holds a violation of the rest rule, the
  caller receives \<open>None\<close>, and the request handler answers with success.
\<close>

theorem validator_returns_nothing:
  "validate_errors ex3_data ex3_result = Inr [RestAfterNights ''w1'' [3] 0 1 2]
   \<and> validate_auto_rooster ex3_data ex3_result = Inr None
   \<and> generate_schedule ex3_data OPTIMAL ex3_x
       = Success \<lparr> total_shifts = 4, shifts_filled = 4, shifts_unfilled = 0 \<rparr>"
  by code_simp

section \<open>The age rule in the builder and in the validator\<close>

text \<open>
  Claim C6 fails on the code. The builder forbids nights from the age of 55 on, the
  validator reports them only above 55. A worker of exactly 55 whose night columns are
  \<open>niet\<close>, on a night shift: the hard constraints reject the assignment (and accept it
  for the same worker at 54), while the validator's age check and all its other checks
  report nothing.
\<close>

theorem age_threshold_differs:
  "\<not> hard_constraints ex6_data ex6_x ex6_u
   \<and> hard_constraints ex6_younger ex6_x ex6_u
   \<and> check_age ex6_data (assigned_rows ex6_result) = Inr []
   \<and> validate_errors ex6_data ex6_result = Inr []"
  by code_simp

section \<open>A solve that fails\<close>

text \<open>
  Claim C7 fails on the code. For a status other than \<open>OPTIMAL\<close> and \<open>FEASIBLE\<close> the
  driver returns \<open>None\<close>, without a status; the request handler subscripts it, and the
  \<open>TypeError\<close> this raises is what the caller gets, as a server error.
\<close>

theorem failed_solve_surfaces_type_error:
  "auto_rooster_standardized dt INFEASIBLE x = None
   \<and> auto_rooster_standardized dt UNKNOWN x = None
   \<and> auto_rooster_standardized dt MODEL_INVALID x = None
   \<and> generate_schedule dt INFEASIBLE x = ServerError TypeError
   \<and> generate_schedule dt UNKNOWN x = ServerError TypeError
   \<and> generate_schedule dt MODEL_INVALID x = ServerError TypeError"
  by (simp add: auto_rooster_standardized_def generate_schedule_def)

section \<open>The constant schedule\<close>

lemma subtract_for_id [simp]:
  "map medewerker_id (subtract_for sc vast e ws) = map medewerker_id ws"
  by (simp add: subtract_for_def)

lemma fold_subtract_for:
  assumes "distinct es"
  shows "fold (subtract_for sc vast) es ws
     = map (\<lambda>w. if medewerker_id w \<in> set es
                then w\<lparr>contract_minutes := contract_minutes w - hours_to_subtract sc vast (medewerker_id w)\<rparr>
                else w) ws"
  using assms
proof (induction es arbitrary: ws)
  case Nil
  then show ?case by simp
next
  case (Cons e es)
  then have "e \<notin> set es" "distinct es" by simp_all
  with Cons.IH[of "subtract_for sc vast e ws"] show ?case
    by (auto simp: subtract_for_def)
qed

lemma unique_props: "distinct (unique xs)" "set (unique xs) = set xs"
  by (simp_all add: unique_def)

lemma hours_absent:
  assumes "e \<notin> set (map v_medewerker_id vast)"
  shows "hours_to_subtract sc vast e = 0"
proof -
  from assms have "filter (\<lambda>v. v_medewerker_id v = e) vast = []"
    by (auto simp: filter_empty_conv)
  then show ?thesis by (simp add: hours_to_subtract_def const_shift_ids_def)
qed

lemma budgets_after_integration:
  "snd (integrate_constant sd sc vast df_onb ws)
     = map (\<lambda>w. w\<lparr>contract_minutes := contract_minutes w - hours_to_subtract sc vast (medewerker_id w)\<rparr>) ws"
proof (cases "vast = []")
  case True
  then show ?thesis
    by (simp add: integrate_constant_def hours_to_subtract_def const_shift_ids_def)
next
  case False
  have "fold (subtract_for sc vast) (unique (map v_medewerker_id vast)) ws
      = map (\<lambda>w. w\<lparr>contract_minutes := contract_minutes w - hours_to_subtract sc vast (medewerker_id w)\<rparr>) ws"
    unfolding fold_subtract_for[OF unique_props(1)] unique_props(2)
    by (rule map_cong) (auto simp: hours_absent)
  with False show ?thesis by (simp add: integrate_constant_def)
qed

lemma set_const_shift_ids:
  "i \<in> set (const_shift_ids sc vast e)
     \<longleftrightarrow> (\<exists>v \<in> set vast. v_medewerker_id v = e \<and> find_shift_id sc v = Some i)"
  by (auto simp: const_shift_ids_def split: option.splits)

lemma sum_if_distinct:
  assumes "distinct L"
  shows "(\<Sum>i\<leftarrow>L. if k = i then (c::int) else 0) = (if k \<in> set L then c else 0)"
  using assms by (induction L) auto

lemma sum_filter_member:
  fixes f :: "'a \<Rightarrow> int"
  assumes "distinct L"
  shows "sum_list (map f (filter (\<lambda>s. g s \<in> set L) sc))
       = (\<Sum>i\<leftarrow>L. sum_list (map f (filter (\<lambda>s. g s = i) sc)))" (is "?l sc = ?r sc")
proof (induction sc)
  case Nil
  then show ?case by simp
next
  case (Cons s sc)
  have "?r (s # sc) = (\<Sum>i\<leftarrow>L. (if g s = i then f s else 0) + sum_list (map f (filter (\<lambda>s. g s = i) sc)))"
    by (rule arg_cong[where f = sum_list], rule map_cong) auto
  also have "\<dots> = (\<Sum>i\<leftarrow>L. if g s = i then f s else 0) + ?r sc"
    by (simp add: sum_list_addf)
  also have "\<dots> = (if g s \<in> set L then f s else 0) + ?l sc"
    using sum_if_distinct[OF assms] Cons.IH by simp
  finally show ?case by simp
qed

lemma sum_matched:
  "(\<Sum>i\<leftarrow>concat (map (\<lambda>v. case find_shift_id sc v of None \<Rightarrow> [] | Some i \<Rightarrow> [i]) rows).
        sum_list (map duration_min (filter (\<lambda>s. shift_id s = i) sc)))
     = sum_list (map (matched_duration sc) rows)"
  by (induction rows) (auto simp: matched_duration_def split: option.splits)

lemma hours_per_row:
  assumes "distinct (const_shift_ids sc vast e)"
  shows "hours_to_subtract sc vast e
       = sum_list (map (matched_duration sc) (filter (\<lambda>v. v_medewerker_id v = e) vast))"
  unfolding hours_to_subtract_def sum_filter_member[OF assms]
  by (simp add: const_shift_ids_def sum_matched)


lemma const_entry_kind:
  "lower (o_beschikbaarheid (fill_onb_row (const_unavail_entry sd v))) \<noteq> ''beschikbaar''"
proof -
  have "lower ''Niet beschikbaar (constant schedule)'' \<noteq> ''beschikbaar''" by code_simp
  then show ?thesis by (simp add: fill_onb_row_def const_unavail_entry_def)
qed

text \<open>
  Claim C9, as the code has it: the integration appends, for each row of the constant
  schedule, an entry for the row's worker on the target date, from 00:00 to 23:59 and of a
  kind other than \<open>beschikbaar\<close>; every worker's contract minutes are reduced by the
  summed durations of the catalogue shifts that at least one row of that worker matches,
  each such shift once. When the worker's rows match pairwise different shifts, this is
  the sum of the matched durations over the worker's rows.
\<close>

theorem constant_schedule_deduction:
  "fst (integrate_constant sd sc vast df_onb ws) = df_onb @ map (const_unavail_entry sd) vast
   \<and> (\<forall>v \<in> set vast.
         ro_medewerker_id (const_unavail_entry sd v) = v_medewerker_id v
         \<and> ro_datum (const_unavail_entry sd v) = target_date sd v
         \<and> ro_tijd_vanaf (const_unavail_entry sd v) = Some \<lparr>hour = 0, minute = 0, second = 0\<rparr>
         \<and> ro_tijd_tm (const_unavail_entry sd v) = Some \<lparr>hour = 23, minute = 59, second = 0\<rparr>
         \<and> lower (o_beschikbaarheid (fill_onb_row (const_unavail_entry sd v))) \<noteq> ''beschikbaar'')
   \<and> snd (integrate_constant sd sc vast df_onb ws)
       = map (\<lambda>w. w\<lparr>contract_minutes :=
                        contract_minutes w - hours_to_subtract sc vast (medewerker_id w)\<rparr>) ws
   \<and> hours_to_subtract sc vast e
       = sum_list (map duration_min
           (filter (\<lambda>s. \<exists>v \<in> set vast. v_medewerker_id v = e \<and> find_shift_id sc v = Some (shift_id s))
                   sc))
   \<and> (distinct (const_shift_ids sc vast e) \<longrightarrow>
        hours_to_subtract sc vast e
          = sum_list (map (matched_duration sc) (filter (\<lambda>v. v_medewerker_id v = e) vast)))"
proof (intro conjI)
  show "fst (integrate_constant sd sc vast df_onb ws) = df_onb @ map (const_unavail_entry sd) vast"
    by (simp add: integrate_constant_def)
  show "\<forall>v \<in> set vast.
         ro_medewerker_id (const_unavail_entry sd v) = v_medewerker_id v
         \<and> ro_datum (const_unavail_entry sd v) = target_date sd v
         \<and> ro_tijd_vanaf (const_unavail_entry sd v) = Some \<lparr>hour = 0, minute = 0, second = 0\<rparr>
         \<and> ro_tijd_tm (const_unavail_entry sd v) = Some \<lparr>hour = 23, minute = 59, second = 0\<rparr>
         \<and> lower (o_beschikbaarheid (fill_onb_row (const_unavail_entry sd v))) \<noteq> ''beschikbaar''"
    using const_entry_kind by (simp add: const_unavail_entry_def)
  show "snd (integrate_constant sd sc vast df_onb ws)
       = map (\<lambda>w. w\<lparr>contract_minutes :=
                        contract_minutes w - hours_to_subtract sc vast (medewerker_id w)\<rparr>) ws"
    by (rule budgets_after_integration)
  show "hours_to_subtract sc vast e
       = sum_list (map duration_min
           (filter (\<lambda>s. \<exists>v \<in> set vast. v_medewerker_id v = e \<and> find_shift_id sc v = Some (shift_id s))
                   sc))"
    by (simp add: hours_to_subtract_def set_const_shift_ids)
  show "distinct (const_shift_ids sc vast e) \<longrightarrow>
        hours_to_subtract sc vast e
          = sum_list (map (matched_duration sc) (filter (\<lambda>v. v_medewerker_id v = e) vast))"
    by (simp add: hours_per_row)
qed

theorem constant_schedule_deduction_witness:
  "distinct (const_shift_ids ex9_constant ex9_single ''w1'')
   \<and> sum_list (map (matched_duration ex9_constant)
                  (filter (\<lambda>v. v_medewerker_id v = ''w1'') ex9_single)) = 480
   \<and> hours_to_subtract ex9_constant ex9_single ''w1'' = 480
   \<and> map contract_minutes
         (snd (integrate_constant 0 ex9_constant ex9_single [] [mk_worker ''w1'' 30 ''ja''])) = [1680]"
proof -
  have d: "distinct (const_shift_ids ex9_constant ex9_single ''w1'')" by code_simp
  have m: "sum_list (map (matched_duration ex9_constant)
                  (filter (\<lambda>v. v_medewerker_id v = ''w1'') ex9_single)) = 480" by code_simp
  from constant_schedule_deduction [of 0 ex9_constant ex9_single "[]" "[mk_worker ''w1'' 30 ''ja'']" "''w1''"] d m
  have h: "hours_to_subtract ex9_constant ex9_single ''w1'' = 480"
    and s: "snd (integrate_constant 0 ex9_constant ex9_single [] [mk_worker ''w1'' 30 ''ja''])
       = map (\<lambda>w. w\<lparr>contract_minutes :=
                        contract_minutes w - hours_to_subtract ex9_constant ex9_single (medewerker_id w)\<rparr>)
             [mk_worker ''w1'' 30 ''ja'']"
    by simp_all
  from s h have "map contract_minutes
         (snd (integrate_constant 0 ex9_constant ex9_single [] [mk_worker ''w1'' 30 ''ja''])) = [1680]"
    by (simp add: mk_worker_def)
  with d m h show ?thesis by simp
qed

text \<open>
  Claim C9 as stated fails when two rows of a worker match the same catalogue shift: the
  rows for the Monday of week 1 and of week 2 both match the first \<open>KOK\<close> shift of a
  Monday, the matched durations over the two rows add up to 960 minutes, and 480 are
  deducted.
\<close>

theorem constant_schedule_repeated_rows_counterexample:
  "length (filter (\<lambda>v. v_medewerker_id v = ''w1'') ex9_vast) = 2
   \<and> sum_list (map (matched_duration ex9_constant)
                  (filter (\<lambda>v. v_medewerker_id v = ''w1'') ex9_vast)) = 960
   \<and> map contract_minutes [mk_worker ''w1'' 30 ''ja''] = [2160]
   \<and> map contract_minutes
         (snd (integrate_constant 0 ex9_constant ex9_vast [] [mk_worker ''w1'' 30 ''ja''])) = [1680]"
  by code_simp

section \<open>Unavailability rows\<close>

lemma clock_total: "clock_le a b \<or> clock_lt b a"
  by (auto simp: clock_le_def clock_lt_def)

lemma clock_lt_not_le: "clock_lt a b \<Longrightarrow> \<not> clock_le b a"
  by (auto simp: clock_le_def clock_lt_def)

lemma overlap_iff: "overlap s a b \<longleftrightarrow> intervals_overlap s a b"
  using clock_total clock_lt_not_le unfolding overlap_def intervals_overlap_def by blast

lemma onb_overlap_fill: "onb_overlap (fill_onb_row r) s \<longleftrightarrow> window_conflict r s"
  by (auto simp: onb_overlap_def window_conflict_def fill_onb_row_def overlap_iff
           split: option.splits)

lemma excluding_fill:
  "excluding_kind (ro_beschikbaarheid r)
     \<longleftrightarrow> lower (o_beschikbaarheid (fill_onb_row r)) \<noteq> ''beschikbaar''"
proof -
  have "lower ''Onbekend'' \<noteq> ''beschikbaar''" by code_simp
  then show ?thesis
    by (cases "ro_beschikbaarheid r") (simp_all add: excluding_kind_def fill_onb_row_def)
qed

lemma model_bars:
  assumes onb: "fill_onb_row r \<in> set (d_onb dt)"
    and e: "ro_medewerker_id r \<in> set (emp_ids dt)"
    and k: "excluding_kind (ro_beschikbaarheid r)"
    and s: "s \<in> set (d_shifts dt)" and d: "ro_datum r = Some (shift_date s)"
    and w: "window_conflict r s"
    and c6: "c6_unavailable dt x"
  shows "\<not> x (shift_id s) (ro_medewerker_id r)"
proof -
  let ?r = "fill_onb_row r"
  have id: "o_medewerker_id ?r = ro_medewerker_id r" "o_datum ?r = ro_datum r"
    by (simp_all add: fill_onb_row_def)
  from c6 onb have "o_medewerker_id ?r \<notin> set (emp_ids dt)
        \<or> lower (o_beschikbaarheid ?r) = ''beschikbaar''
        \<or> (\<forall>s \<in> set (filter (\<lambda>s. Some (shift_date s) = o_datum ?r) (d_shifts dt)).
              onb_overlap ?r s \<longrightarrow> \<not> x (shift_id s) (o_medewerker_id ?r))"
    unfolding c6_unavailable_def by blast
  with e k have "\<forall>s \<in> set (filter (\<lambda>s. Some (shift_date s) = o_datum ?r) (d_shifts dt)).
              onb_overlap ?r s \<longrightarrow> \<not> x (shift_id s) (o_medewerker_id ?r)"
    by (simp add: id excluding_fill)
  moreover from s d have "s \<in> set (filter (\<lambda>s. Some (shift_date s) = o_datum ?r) (d_shifts dt))"
    by (simp add: id)
  ultimately show ?thesis using w by (simp add: onb_overlap_fill id)
qed

lemma exempt_row:
  assumes "\<not> excluding_kind (ro_beschikbaarheid r)"
  shows "c6_unavailable (dt\<lparr>d_onb := [fill_onb_row r]\<rparr>) x"
  using assms by (simp add: excluding_fill c6_unavailable_def)

text \<open>
  The builder's side of claim C10, for every input: a missing kind becomes
  \<open>Onbekend\<close>; a row whose kind is missing or, in lower case, is not \<open>beschikbaar\<close>
  closes to its worker every shift of its date whose interval overlaps its window (every
  shift of that date when a time is missing); a row of kind \<open>beschikbaar\<close> posts no
  constraint.
\<close>

lemma builder_excludes_row:
  assumes onb: "d_onb dt = preprocess_onb df_onb" and r: "r \<in> set df_onb"
    and e: "ro_medewerker_id r \<in> set (emp_ids dt)"
  shows "(ro_beschikbaarheid r = None \<longrightarrow> o_beschikbaarheid (fill_onb_row r) = ''Onbekend'')
    \<and> (excluding_kind (ro_beschikbaarheid r) \<and> ro_datum r = Some (shift_date s)
          \<and> window_conflict r s \<and> s \<in> set (d_shifts dt) \<and> hard_constraints dt x u
          \<longrightarrow> \<not> x (shift_id s) (ro_medewerker_id r))
    \<and> (\<not> excluding_kind (ro_beschikbaarheid r) \<longrightarrow>
         c6_unavailable (dt\<lparr>d_onb := [fill_onb_row r]\<rparr>) x)"
proof (intro conjI impI)
  show "o_beschikbaarheid (fill_onb_row r) = ''Onbekend''" if "ro_beschikbaarheid r = None"
    using that by (simp add: fill_onb_row_def)
next
  from onb r have m: "fill_onb_row r \<in> set (d_onb dt)" by (simp add: preprocess_onb_def)
  assume c: "excluding_kind (ro_beschikbaarheid r) \<and> ro_datum r = Some (shift_date s)
          \<and> window_conflict r s \<and> s \<in> set (d_shifts dt) \<and> hard_constraints dt x u"
  then have "c6_unavailable dt x" by (simp add: hard_constraints_def)
  with c show "\<not> x (shift_id s) (ro_medewerker_id r)"
    using model_bars[OF m e, of s x] by blast
next
  assume "\<not> excluding_kind (ro_beschikbaarheid r)"
  then show "c6_unavailable (dt\<lparr>d_onb := [fill_onb_row r]\<rparr>) x"
    by (rule exempt_row)
qed

text \<open>The validator's check 6 skips every shift, so it reports nothing, whatever the table.\<close>

lemma check_unavailable_row_nothing: "check_unavailable_row dt rows r = []"
proof -
  have "concat (map (\<lambda>sr. []) xs) = ([] :: violation list)" for xs :: "shift list"
    by (induction xs) simp_all
  then show ?thesis
    by (simp add: check_unavailable_row_def timestamp_ne_date_def Let_def)
qed

lemma check_unavailable_reports_nothing: "check_unavailable dt rows = []"
proof -
  have "concat (map (check_unavailable_row dt rows) rs) = []" for rs
    by (induction rs) (simp_all add: check_unavailable_row_nothing)
  then show ?thesis by (simp add: check_unavailable_def)
qed

text \<open>
  Claim C10 fails on the code, on the validator's side. The row of missing kind becomes
  \<open>Onbekend\<close>, and the builder closes the day shift inside its window to the worker:
  the assignment that the hard constraints accept without the row is rejected with it,
  accepted again when the kind is \<open>BESCHIKBAAR\<close> in any case of letters, and rejected
  for a kind that differs from \<open>beschikbaar\<close> by a trailing blank. The validator,
  given a table that puts the worker on that day shift, reports no unavailability
  violation, and no other.
\<close>

theorem validator_misses_unavailability:
  "map o_beschikbaarheid (d_onb ex10_data) = [''Onbekend'']
   \<and> hard_constraints ex1_data ex1_x ex1_u
   \<and> \<not> hard_constraints ex10_data ex1_x ex1_u
   \<and> hard_constraints ex10_data ex10_x ex10_u
   \<and> hard_constraints (ex10_kind ''BESCHIKBAAR'') ex1_x ex1_u
   \<and> hard_constraints (ex10_kind ''Beschikbaar'') ex1_x ex1_u
   \<and> \<not> hard_constraints (ex10_kind ''beschikbaar '') ex1_x ex1_u
   \<and> \<not> hard_constraints (ex10_kind ''Niet beschikbaar'') ex1_x ex1_u
   \<and> (''w1'', hd (d_shifts ex10_data)) \<in> set (assigned_rows ex10_table)
   \<and> check_unavailable ex10_data (assigned_rows ex10_table) = []
   \<and> validate_errors ex10_data ex10_table = Inr []"
  by code_simp

end
